theory Spec2Isabelle
  imports Main "HOL-Library.Word"
begin

unbundle bit_operations_syntax

section \<open>Re-registration delay (SIPAccount::scheduleReregistration)\<close>

text \<open>
  \<^verbatim>\<open>pj_time_val\<close> of pjlib: two \<^verbatim>\<open>long\<close> fields. The values that occur here are
  far from the limits of \<^verbatim>\<open>long\<close>, so the fields are unbounded integers.
\<close>

record pj_time_val =
  sec :: int
  msec :: int

definition REGISTRATION_FIRST_RETRY_INTERVAL :: int where
  "REGISTRATION_FIRST_RETRY_INTERVAL = 60"

definition REGISTRATION_RETRY_INTERVAL :: int where
  "REGISTRATION_RETRY_INTERVAL = 300"

text \<open>
  Modelled from the spec: \<^verbatim>\<open>pj_time_val_normalize\<close> belongs to pjlib and is not among the
  sources; the specification describes it as "normalize overflow of the millisecond
  component into seconds". The model follows pjlib: whole seconds are moved out of a
  millisecond field of 1000 or more, a millisecond field of -1000 or less borrows one second
  at a time (a do-while loop, \<open>msec_borrow\<close>), and at the end the two fields are given the
  same sign.
\<close>

function msec_borrow :: "int \<Rightarrow> int \<Rightarrow> int \<times> int" where
  "msec_borrow s m =
     (let s' = s - 1; m' = m + 1000
      in if m' \<le> - 1000 then msec_borrow s' m' else (s', m'))"
  by pat_completeness auto
termination
  by (relation "measure (\<lambda>(s, m). nat (- m))") auto

declare msec_borrow.simps [simp del]

definition pj_time_val_normalize :: "pj_time_val \<Rightarrow> pj_time_val" where
  "pj_time_val_normalize t =
     (let (s1, m1) =
        (if msec t \<ge> 1000 then (sec t + msec t div 1000, msec t mod 1000)
         else if msec t \<le> - 1000 then msec_borrow (sec t) (msec t)
         else (sec t, msec t))
      in if s1 \<ge> 1 \<and> m1 < 0 then \<lparr>sec = s1 - 1, msec = m1 + 1000\<rparr>
         else if s1 < 0 \<and> m1 > 0 then \<lparr>sec = s1 + 1, msec = m1 - 1000\<rparr>
         else \<lparr>sec = s1, msec = m1\<rparr>)"

text \<open>The length of a time value in milliseconds.\<close>

definition total_msec :: "pj_time_val \<Rightarrow> int" where
  "total_msec t = sec t * 1000 + msec t"

text \<open>
  The first statement of the "Reregistration attempt" block:
  \<^verbatim>\<open>delay.sec = auto_rereg_.attempt_cnt ? REGISTRATION_RETRY_INTERVAL
                                        : REGISTRATION_FIRST_RETRY_INTERVAL;\<close>
\<close>

definition retry_interval :: "nat \<Rightarrow> int" where
  "retry_interval attempt_cnt =
     (if attempt_cnt \<noteq> 0 then REGISTRATION_RETRY_INTERVAL
      else REGISTRATION_FIRST_RETRY_INTERVAL)"

text \<open>
  The block "Randomize interval by +/- 10 secs" followed by the normalisation, as a
  function of \<^verbatim>\<open>delay.sec\<close> and of the two numbers the generators would give:
  \<open>jz\<close> is the draw of \<^verbatim>\<open>delay10ZeroDist_ {-10000, 10000}\<close> and \<open>jp\<close> the draw of
  \<^verbatim>\<open>delay10PosDist_ {0, 10000}\<close>. Only the generator of the branch taken is read.
\<close>

definition randomize_interval :: "int \<Rightarrow> int \<Rightarrow> int \<Rightarrow> pj_time_val" where
  "randomize_interval base jz jp =
     pj_time_val_normalize
       (if base \<ge> 10 then \<lparr>sec = base, msec = jz\<rparr> else \<lparr>sec = 0, msec = jp\<rparr>)"

definition reregistration_delay :: "nat \<Rightarrow> int \<Rightarrow> int \<Rightarrow> pj_time_val" where
  "reregistration_delay attempt_cnt jz jp =
     randomize_interval (retry_interval attempt_cnt) jz jp"


section \<open>The account and its collaborators\<close>

subsection \<open>Status codes and registration states\<close>

text \<open>
  The enumerators of \<^verbatim>\<open>RegistrationState\<close> that the account sets, and the pjsip status
  codes named in the source (\<^verbatim>\<open>pj_status_t\<close> and SIP status codes are \<^verbatim>\<open>int\<close>).
\<close>

datatype RegistrationState =
    UNREGISTERED
  | TRYING
  | REGISTERED
  | ERROR_GENERIC
  | ERROR_AUTH
  | ERROR_HOST
  | ERROR_SERVICE_UNAVAILABLE

definition PJ_SUCCESS :: int where "PJ_SUCCESS = 0"
definition PJSIP_SC_OK :: int where "PJSIP_SC_OK = 200"
definition PJSIP_SC_ACCEPTED :: int where "PJSIP_SC_ACCEPTED = 202"
definition PJSIP_SC_UNAUTHORIZED :: int where "PJSIP_SC_UNAUTHORIZED = 401"
definition PJSIP_SC_FORBIDDEN :: int where "PJSIP_SC_FORBIDDEN = 403"
definition PJSIP_SC_NOT_FOUND :: int where "PJSIP_SC_NOT_FOUND = 404"
definition PJSIP_SC_PROXY_AUTHENTICATION_REQUIRED :: int where
  "PJSIP_SC_PROXY_AUTHENTICATION_REQUIRED = 407"
definition PJSIP_SC_REQUEST_TIMEOUT :: int where "PJSIP_SC_REQUEST_TIMEOUT = 408"
definition PJSIP_SC_INTERNAL_SERVER_ERROR :: int where "PJSIP_SC_INTERNAL_SERVER_ERROR = 500"
definition PJSIP_SC_BAD_GATEWAY :: int where "PJSIP_SC_BAD_GATEWAY = 502"
definition PJSIP_SC_SERVICE_UNAVAILABLE :: int where "PJSIP_SC_SERVICE_UNAVAILABLE = 503"
definition PJSIP_SC_SERVER_TIMEOUT :: int where "PJSIP_SC_SERVER_TIMEOUT = 504"

lemmas status_code_defs =
  PJ_SUCCESS_def PJSIP_SC_OK_def PJSIP_SC_ACCEPTED_def PJSIP_SC_UNAUTHORIZED_def
  PJSIP_SC_FORBIDDEN_def PJSIP_SC_NOT_FOUND_def PJSIP_SC_PROXY_AUTHENTICATION_REQUIRED_def
  PJSIP_SC_REQUEST_TIMEOUT_def PJSIP_SC_INTERNAL_SERVER_ERROR_def PJSIP_SC_BAD_GATEWAY_def
  PJSIP_SC_SERVICE_UNAVAILABLE_def PJSIP_SC_SERVER_TIMEOUT_def

text \<open>Division of C on \<^verbatim>\<open>int\<close>: the quotient is truncated towards zero.\<close>

definition c_div :: "int \<Rightarrow> int \<Rightarrow> int" where
  "c_div a b = (if (a < 0) = (b < 0) then \<bar>a\<bar> div \<bar>b\<bar> else - (\<bar>a\<bar> div \<bar>b\<bar>))"

text \<open>The macro \<^verbatim>\<open>PJSIP_IS_STATUS_IN_CLASS(code, class)\<close>: \<^verbatim>\<open>(code/100 == class/100)\<close>.\<close>

definition PJSIP_IS_STATUS_IN_CLASS :: "int \<Rightarrow> int \<Rightarrow> bool" where
  "PJSIP_IS_STATUS_IN_CLASS status_code code_class =
     (c_div status_code 100 = c_div code_class 100)"

subsection \<open>Addresses\<close>

text \<open>
  The class \<^verbatim>\<open>IpAddr\<close> (ip_utils.h) and the pjlib functions under it are not among the
  sources. An address is a value of a type \<open>'ip\<close>, and the operations the account calls are
  the fields of \<open>ip_utils\<close>, so that every statement below holds for each implementation
  of them:
  \<^item> \<open>IpAddr_default\<close> is \<^verbatim>\<open>IpAddr{}\<close> and \<open>IpAddr_of_string\<close> is \<^verbatim>\<open>IpAddr(std::string_view)\<close>;
  \<^item> \<open>pj_sockaddr_parse str a\<close> is \<^verbatim>\<open>pj_sockaddr_parse(pj_AF_UNSPEC(), 0, &str, a.pjPtr())\<close>:
    whether the status is \<^verbatim>\<open>PJ_SUCCESS\<close>, and the content of \<open>a\<close> afterwards;
  \<^item> \<open>getPort\<close>, \<open>setPort\<close> (a \<^verbatim>\<open>pj_uint16_t\<close>), \<open>ip_equal\<close> (\<^verbatim>\<open>operator==\<close>),
    \<open>ip_valid\<close> (\<^verbatim>\<open>operator bool\<close>), \<open>isPrivate\<close>;
  \<^item> \<open>toString a include_port force_ipv6_brackets\<close>;
  \<^item> \<open>isIpv6_string\<close> is the static \<^verbatim>\<open>IpAddr::isIpv6(str)\<close>;
  \<^item> \<open>default_port_for_type\<close> is \<^verbatim>\<open>pjsip_transport_get_default_port_for_type\<close>;
  \<^item> \<open>pn_provider\<close> is what the preprocessor leaves of the push-notification provider
    in \<^verbatim>\<open>printContactHeader\<close>: \<^verbatim>\<open>;pn-provider=fcm\<close> on Android, \<^verbatim>\<open>;pn-provider=apns\<close>
    on Apple targets, nothing elsewhere.
\<close>

record 'ip ip_utils =
  IpAddr_default :: 'ip
  IpAddr_of_string :: "string \<Rightarrow> 'ip"
  pj_sockaddr_parse :: "string \<Rightarrow> 'ip \<Rightarrow> bool \<times> 'ip"
  getPort :: "'ip \<Rightarrow> nat"
  setPort :: "'ip \<Rightarrow> nat \<Rightarrow> 'ip"
  ip_equal :: "'ip \<Rightarrow> 'ip \<Rightarrow> bool"
  ip_valid :: "'ip \<Rightarrow> bool"
  isPrivate :: "'ip \<Rightarrow> bool"
  toString :: "'ip \<Rightarrow> bool \<Rightarrow> bool \<Rightarrow> string"
  isIpv6_string :: "string \<Rightarrow> bool"
  default_port_for_type :: "nat \<Rightarrow> int"
  pn_provider :: string

text \<open>The conversion of an \<^verbatim>\<open>int\<close> argument to a \<^verbatim>\<open>pj_uint16_t\<close> parameter.\<close>

definition to_uint16 :: "int \<Rightarrow> nat" where
  "to_uint16 i = nat (i mod 65536)"

text \<open>
  \<^verbatim>\<open>pj_stricmp(a, b) == 0\<close>: equality of two strings up to the case of ASCII letters.
\<close>

definition ascii_tolower :: "char \<Rightarrow> char" where
  "ascii_tolower c =
     (if (65 :: nat) \<le> of_char c \<and> of_char c \<le> (90 :: nat)
      then char_of (of_char c + (32 :: nat)) else c)"

definition pj_stricmp_eq :: "string \<Rightarrow> string \<Rightarrow> bool" where
  "pj_stricmp_eq a b = (map ascii_tolower a = map ascii_tolower b)"

subsection \<open>The parameters of the registration callback\<close>

record pjsip_via_hdr =
  rport_param :: int
  sent_by_host :: string
  sent_by_port :: int
  recvd_param :: string

text \<open>
  A \<^verbatim>\<open>pjsip_transport\<close>: its address \<open>tp_ptr\<close> (pointers to transports are compared),
  \<^verbatim>\<open>key.type\<close>, and the value of \<^verbatim>\<open>PJSIP_TRANSPORT_IS_SECURE\<close>.
\<close>

record pjsip_transport =
  tp_ptr :: nat
  key_type :: nat
  is_secure :: bool

record pjsip_rx_data =
  tp_info_transport :: pjsip_transport
  msg_info_via :: pjsip_via_hdr
  pkt_info_src_name :: string

text \<open>A \<^verbatim>\<open>pjsip_regc*\<close> is \<open>None\<close> when null and \<open>Some\<close> of its address otherwise.\<close>

record pjsip_regc_cbparam =
  regc :: "nat option"
  status :: int
  code :: int
  expiration :: int
  rdata :: pjsip_rx_data

subsection \<open>Credentials\<close>

record Credentials =
  realm :: string
  username :: string
  password :: string
  password_h :: string

datatype pjsip_cred_data_type = PJSIP_CRED_DATA_PLAIN_PASSWD | PJSIP_CRED_DATA_DIGEST

record pjsip_cred_info =
  cred_realm :: string
  cred_scheme :: string
  cred_username :: string
  cred_data_type :: pjsip_cred_data_type
  cred_data :: string

subsection \<open>Calls into pjsip\<close>

text \<open>
  The calls of the account into pjsip that change something outside the account are
  recorded, in order, in the field \<open>events\<close> of the account.
\<close>

datatype sip_request = REGISTER | UNREGISTER

datatype event =
    Cancel_timer
  | Schedule_timer pj_time_val
  | Regc_destroy nat
  | Regc_set_via_sent_by "nat option" string int nat
  | Regc_update_contact nat string
  | Regc_set_route_set "nat option" string
  | Regc_release_transport nat
  | Regc_send nat sip_request
  | Remove_state_listener nat

subsection \<open>The account\<close>

text \<open>
  The members of \<^verbatim>\<open>SIPAccount\<close> (and of its bases \<^verbatim>\<open>SIPAccountBase\<close> and \<^verbatim>\<open>Account\<close>)
  that the functions below read or write. The anonymous struct \<^verbatim>\<open>auto_rereg_\<close> is
  written \<open>m_x\<close> for a member \<^verbatim>\<open>x_\<close>, and flattened: \<open>auto_rereg_timer_id\<close> is \<^verbatim>\<open>auto_rereg_.timer.id\<close> and
  \<open>auto_rereg_timer_user_data\<close> says whether \<^verbatim>\<open>auto_rereg_.timer.user_data\<close> is set.
  \<^verbatim>\<open>via_addr_\<close> is flattened into host and port. \<open>m_transport\<close> holds the
  \<^verbatim>\<open>pjsip_transport\<close> of the \<^verbatim>\<open>SipTransport\<close>, \<open>None\<close> when the pointer is null.
\<close>

record 'ip SIPAccount =
  m_enabled :: bool
  m_active :: bool
  m_registrationState :: RegistrationState
  m_registrationStateDetailed :: int
  m_hostname :: string
  m_username :: string
  m_displayName :: string
  m_deviceKey :: string
  m_serviceRoute :: string
  m_tlsEnable :: bool
  m_hostIp :: 'ip
  m_regc :: "nat option"
  m_bRegister :: bool
  auto_rereg_active :: bool
  auto_rereg_timer_id :: bool
  auto_rereg_timer_user_data :: bool
  auto_rereg_attempt_cnt :: nat
  m_credentials :: "Credentials list"
  m_cred :: "pjsip_cred_info list"
  m_transport :: "pjsip_transport option"
  m_tlsListener :: "nat option"
  m_contactHeader :: string
  m_contactAddress :: 'ip
  via_addr_host :: string
  via_addr_port :: int
  m_via_tp :: "nat option"
  m_allowIPAutoRewrite :: bool
  m_publishedSameasLocal :: bool
  m_publishedIpAddress :: string
  m_publishedIp :: 'ip
  events :: "event list"

definition emit :: "event \<Rightarrow> 'ip SIPAccount \<Rightarrow> 'ip SIPAccount" where
  "emit e s = s\<lparr>events := events s @ [e]\<rparr>"

text \<open>
  Modelled from the spec: \<^verbatim>\<open>Account::isUsable\<close> is declared in account.h, which is not
  among the sources; "account enabled and minimally configured" is the conjunction of the
  two flags of the base class.
\<close>

definition isUsable :: "'ip SIPAccount \<Rightarrow> bool" where
  "isUsable s = (m_enabled s \<and> m_active s)"

definition isIP2IP :: "'ip SIPAccount \<Rightarrow> bool" where
  "isIP2IP s = (m_hostname s = [])"

definition isRegistered :: "'ip SIPAccount \<Rightarrow> bool" where
  "isRegistered s = m_bRegister s"

definition setRegister :: "bool \<Rightarrow> 'ip SIPAccount \<Rightarrow> 'ip SIPAccount" where
  "setRegister result s = s\<lparr>m_bRegister := result\<rparr>"

definition getRegistrationInfo :: "'ip SIPAccount \<Rightarrow> nat option" where
  "getRegistrationInfo s = m_regc s"

definition hasServiceRoute :: "'ip SIPAccount \<Rightarrow> bool" where
  "hasServiceRoute s = (m_serviceRoute s \<noteq> [])"

definition getContactAddress :: "'ip SIPAccount \<Rightarrow> 'ip" where
  "getContactAddress s = m_contactAddress s"

definition getContactHeader :: "'ip SIPAccount \<Rightarrow> string" where
  "getContactHeader s = m_contactHeader s"

text \<open>
  \<^verbatim>\<open>SIPAccount::setRegistrationState(state, details_code)\<close> stores the pair of the code
  and its status text with \<^verbatim>\<open>setRegistrationStateDetailed\<close> and hands the state to the
  base class, which stores it. The status text (\<^verbatim>\<open>pjsip_get_status_text\<close>) is a function
  of the code and is left out. The second parameter defaults to 0.
\<close>

definition setRegistrationState ::
  "RegistrationState \<Rightarrow> int \<Rightarrow> 'ip SIPAccount \<Rightarrow> 'ip SIPAccount" where
  "setRegistrationState state details_code s =
     s\<lparr>m_registrationStateDetailed := details_code, m_registrationState := state\<rparr>"

definition destroyRegistrationInfo :: "'ip SIPAccount \<Rightarrow> 'ip SIPAccount" where
  "destroyRegistrationInfo s =
     (case m_regc s of
        None \<Rightarrow> s
      | Some r \<Rightarrow> (emit (Regc_destroy r) s)\<lparr>m_regc := None\<rparr>)"

definition resetAutoRegistration :: "'ip SIPAccount \<Rightarrow> 'ip SIPAccount" where
  "resetAutoRegistration s =
     s\<lparr>auto_rereg_active := False, auto_rereg_attempt_cnt := 0,
       auto_rereg_timer_user_data := False\<rparr>"

subsection \<open>SIPAccount::scheduleReregistration\<close>

text \<open>
  What one call of \<^verbatim>\<open>scheduleReregistration\<close> takes from outside: the numbers the two
  distributions give (\<^verbatim>\<open>delay10ZeroDist_(rand)\<close>, \<^verbatim>\<open>delay10PosDist_(rand)\<close>) and whether
  \<^verbatim>\<open>pjsip_endpt_schedule_timer\<close> returns \<^verbatim>\<open>PJ_SUCCESS\<close>.
\<close>

record timer_env =
  draw_zero :: int
  draw_pos :: int
  schedule_ok :: bool

definition scheduleReregistration :: "timer_env \<Rightarrow> 'ip SIPAccount \<Rightarrow> 'ip SIPAccount" where
  "scheduleReregistration T s =
     (if \<not> isUsable s then s
      else
        let s1 = (if auto_rereg_timer_id s
                  then emit Cancel_timer (s\<lparr>auto_rereg_timer_id := False\<rparr>)
                  else s);
            s2 = s1\<lparr>auto_rereg_active := True, auto_rereg_timer_user_data := True\<rparr>;
            delay = reregistration_delay (auto_rereg_attempt_cnt s2) (draw_zero T) (draw_pos T);
            s3 = emit (Schedule_timer delay) (s2\<lparr>auto_rereg_timer_id := True\<rparr>)
        in if schedule_ok T then s3 else s3\<lparr>auto_rereg_timer_id := False\<rparr>)"

subsection \<open>SIPAccount::printContactHeader\<close>

text \<open>The decimal digits of a number, as \<^verbatim>\<open>operator<<\<close> prints a \<^verbatim>\<open>pj_uint16_t\<close>.\<close>

fun string_of_nat :: "nat \<Rightarrow> string" where
  "string_of_nat n =
     (if n < 10 then [''0123456789'' ! n]
      else string_of_nat (n div 10) @ [''0123456789'' ! (n mod 10)])"

declare string_of_nat.simps [simp del]

definition printContactHeader ::
  "'ip ip_utils \<Rightarrow> string \<Rightarrow> string \<Rightarrow> string \<Rightarrow> nat \<Rightarrow> bool \<Rightarrow> string \<Rightarrow> string" where
  "printContactHeader X username' displayName address port secure deviceKey =
     (let quotedDisplayName = (if displayName = [] then [] else ''\"'' @ displayName @ ''\" '');
          scheme = (if secure then ''sips'' else ''sip'');
          transport = (if secure then '';transport=tls'' else [])
      in quotedDisplayName @ ''<'' @ scheme @ '':'' @ username'
           @ (if username' = [] then [] else ''@'') @ address @ '':'' @ string_of_nat port
           @ transport
           @ (if deviceKey \<noteq> []
              then pn_provider X @ '';pn-param='' @ '';pn-prid='' @ deviceKey else [])
           @ ''>'')"

subsection \<open>SIPAccount::checkNATAddress\<close>

text \<open>
  The function is cut into the blocks of its source, in their order. First "Get the
  received and rport info": the port \<^verbatim>\<open>rport\<close> and the address \<^verbatim>\<open>via_addr\<close> taken from
  the Via header of the response, then \<^verbatim>\<open>via_addrstr\<close>, the same address with an IPv6
  literal enclosed in square brackets.
\<close>

definition nat_rport :: "'ip ip_utils \<Rightarrow> pjsip_regc_cbparam \<Rightarrow> int" where
  "nat_rport X param =
     (let tp = tp_info_transport (rdata param); via = msg_info_via (rdata param)
      in if rport_param via < 1
         then (if sent_by_port via = 0 then default_port_for_type X (key_type tp)
               else sent_by_port via)
         else rport_param via)"

definition nat_via_addr :: "pjsip_regc_cbparam \<Rightarrow> string" where
  "nat_via_addr param =
     (let via = msg_info_via (rdata param)
      in if recvd_param via \<noteq> [] then recvd_param via else sent_by_host via)"

definition nat_via_addrstr :: "'ip ip_utils \<Rightarrow> pjsip_regc_cbparam \<Rightarrow> string" where
  "nat_via_addrstr X param =
     (if isIpv6_string X (nat_via_addr param)
      then toString X (IpAddr_of_string X (nat_via_addr param)) False True
      else nat_via_addr param)"

text \<open>
  The update of the Via override (\<^verbatim>\<open>via_addr_\<close>, \<^verbatim>\<open>via_tp_\<close>) and "Set published Ip
  address". The copy of the Via address into \<^verbatim>\<open>via_addr_.host\<close> is made when the two
  differ, so the host is the Via address afterwards in both cases.
  \<^verbatim>\<open>setPublishedAddress\<close> belongs to the base class \<^verbatim>\<open>SIPAccountBase\<close>, which is not
  among the sources: it is taken to store its argument in \<^verbatim>\<open>publishedIp_\<close>.
\<close>

definition nat_update_via ::
  "'ip ip_utils \<Rightarrow> pjsip_regc_cbparam \<Rightarrow> 'ip SIPAccount \<Rightarrow> 'ip SIPAccount" where
  "nat_update_via X param s =
     (let tp = tp_info_transport (rdata param)
      in if via_addr_host s = [] \<or> m_via_tp s \<noteq> Some (tp_ptr tp)
         then emit (Regc_set_via_sent_by (m_regc s) (nat_via_addr param) (nat_rport X param)
                      (tp_ptr tp))
                (s\<lparr>via_addr_host := nat_via_addr param, via_addr_port := nat_rport X param,
                   m_via_tp := Some (tp_ptr tp)\<rparr>)
         else s)"

definition nat_set_published ::
  "'ip ip_utils \<Rightarrow> pjsip_regc_cbparam \<Rightarrow> 'ip SIPAccount \<Rightarrow> 'ip SIPAccount" where
  "nat_set_published X param s =
     s\<lparr>m_publishedSameasLocal := False, m_publishedIpAddress := nat_via_addrstr X param,
       m_publishedIp := IpAddr_of_string X (nat_via_addrstr X param)\<rparr>"

text \<open>
  "Compare received and rport with the URI in our registration": the contact address with
  its port defaulted, the address parsed from the Via address with \<^verbatim>\<open>rport\<close> as its port,
  and the flag \<^verbatim>\<open>matched\<close>.
\<close>

definition nat_contact_addr :: "'ip ip_utils \<Rightarrow> pjsip_regc_cbparam \<Rightarrow> 'ip SIPAccount \<Rightarrow> 'ip" where
  "nat_contact_addr X param s =
     (let contact_addr = getContactAddress s
      in if getPort X contact_addr = 0
         then setPort X contact_addr
                (to_uint16 (default_port_for_type X (key_type (tp_info_transport (rdata param)))))
         else contact_addr)"

definition nat_parse_status :: "'ip ip_utils \<Rightarrow> pjsip_regc_cbparam \<Rightarrow> bool" where
  "nat_parse_status X param = fst (pj_sockaddr_parse X (nat_via_addr param) (IpAddr_default X))"

definition nat_recv_addr :: "'ip ip_utils \<Rightarrow> pjsip_regc_cbparam \<Rightarrow> 'ip" where
  "nat_recv_addr X param =
     setPort X (snd (pj_sockaddr_parse X (nat_via_addr param) (IpAddr_default X)))
       (to_uint16 (nat_rport X param))"

definition nat_matched :: "'ip ip_utils \<Rightarrow> pjsip_regc_cbparam \<Rightarrow> 'ip SIPAccount \<Rightarrow> bool" where
  "nat_matched X param s =
     (if nat_parse_status X param
      then ip_equal X (nat_contact_addr X param s) (nat_recv_addr X param)
      else int (getPort X (nat_contact_addr X param s)) = nat_rport X param
           \<and> pj_stricmp_eq (toString X (nat_contact_addr X param s) False False)
                (nat_via_addr param))"

text \<open>"Build new Contact header" and the update of the registration.\<close>

definition nat_rewrite_contact ::
  "'ip ip_utils \<Rightarrow> pjsip_regc_cbparam \<Rightarrow> 'ip SIPAccount \<Rightarrow> bool \<times> 'ip SIPAccount" where
  "nat_rewrite_contact X param s =
     (let tempContact = printContactHeader X (m_username s) (m_displayName s)
                          (nat_via_addrstr X param) (to_uint16 (nat_rport X param))
                          (is_secure (tp_info_transport (rdata param))) (m_deviceKey s)
      in if tempContact = [] then (False, s)
         else
           let s' = s\<lparr>m_contactHeader := tempContact\<rparr>
           in (True,
               case m_regc s' of
                 None \<Rightarrow> s'
               | Some r \<Rightarrow> emit (Regc_update_contact r (getContactHeader s')) s'))"

text \<open>The whole function: the returned flag and the account afterwards.\<close>

definition checkNATAddress ::
  "'ip ip_utils \<Rightarrow> pjsip_regc_cbparam \<Rightarrow> 'ip SIPAccount \<Rightarrow> bool \<times> 'ip SIPAccount" where
  "checkNATAddress X param s =
     (let s2 = nat_set_published X param (nat_update_via X param s);
          contact_addr = nat_contact_addr X param s2;
          recv_addr = nat_recv_addr X param
      in if nat_matched X param s2 then (False, s2)
         else
           let srv_ip = IpAddr_of_string X (pkt_info_src_name (rdata param))
           in if \<not> isPrivate X contact_addr \<and> \<not> isPrivate X srv_ip \<and> isPrivate X recv_addr
              then (False, s2)
              else if ip_equal X contact_addr recv_addr \<and> isPrivate X recv_addr
              then (False, s2)
              else nat_rewrite_contact X param s2)"

subsection \<open>SIPAccount::onRegister\<close>

text \<open>
  The chain of \<^verbatim>\<open>if\<close> / \<^verbatim>\<open>else if\<close> that interprets the response (a failed status, a
  code outside 0..299, a code of the class 200), after the test of \<^verbatim>\<open>param->regc\<close>.
\<close>

definition register_response ::
  "'ip ip_utils \<Rightarrow> pjsip_regc_cbparam \<Rightarrow> 'ip SIPAccount \<Rightarrow> 'ip SIPAccount" where
  "register_response X param s =
     (if status param \<noteq> PJ_SUCCESS
      then setRegistrationState ERROR_GENERIC (code param) (destroyRegistrationInfo s)
      else if code param < 0 \<or> code param \<ge> 300
      then
        (let d = destroyRegistrationInfo s
         in if code param = PJSIP_SC_FORBIDDEN
            then setRegistrationState ERROR_AUTH (code param) d
            else if code param = PJSIP_SC_NOT_FOUND
            then setRegistrationState ERROR_HOST (code param) d
            else if code param = PJSIP_SC_REQUEST_TIMEOUT
            then setRegistrationState ERROR_HOST (code param) d
            else if code param = PJSIP_SC_SERVICE_UNAVAILABLE
            then setRegistrationState ERROR_SERVICE_UNAVAILABLE (code param) d
            else setRegistrationState ERROR_GENERIC (code param) d)
      else if PJSIP_IS_STATUS_IN_CLASS (code param) 200
      then
        (let r = resetAutoRegistration s
         in if expiration param < 1
            then setRegistrationState UNREGISTERED (code param) (destroyRegistrationInfo r)
            else
              let n = (if m_allowIPAutoRewrite r then snd (checkNATAddress X param r) else r);
                  n' = (if hasServiceRoute n
                        then emit (Regc_set_route_set (regc param) (m_serviceRoute n)) n
                        else n)
              in setRegistrationState REGISTERED (code param) n')
      else s)"

text \<open>
  The whole callback: the test of \<^verbatim>\<open>param->regc\<close>, the interpretation of the response,
  and the \<^verbatim>\<open>switch\<close> "Check if we need to auto retry registration". The last statement
  of the function compares the expiration of the response with \<^verbatim>\<open>registrationExpire_\<close>
  and only writes to the log; it is left out.
\<close>

definition onRegister ::
  "'ip ip_utils \<Rightarrow> timer_env \<Rightarrow> pjsip_regc_cbparam \<Rightarrow> 'ip SIPAccount \<Rightarrow> 'ip SIPAccount" where
  "onRegister X T param s =
     (if regc param \<noteq> getRegistrationInfo s then s
      else
        let s1 = register_response X param s
        in if code param = PJSIP_SC_REQUEST_TIMEOUT
              \<or> code param = PJSIP_SC_INTERNAL_SERVER_ERROR
              \<or> code param = PJSIP_SC_BAD_GATEWAY
              \<or> code param = PJSIP_SC_SERVICE_UNAVAILABLE
              \<or> code param = PJSIP_SC_SERVER_TIMEOUT
           then scheduleReregistration T s1
           else if PJSIP_IS_STATUS_IN_CLASS (code param) 600
           then scheduleReregistration T s1
           else s1)"

text \<open>The delays handed to \<^verbatim>\<open>pjsip_endpt_schedule_timer\<close>, in the order of the calls.\<close>

definition timers_scheduled :: "event list \<Rightarrow> pj_time_val list" where
  "timers_scheduled es =
     concat (map (\<lambda>e. case e of Schedule_timer d \<Rightarrow> [d] | _ \<Rightarrow> []) es)"

text \<open>
  What the interpretation of a response keeps: the two flags of usability and the timers
  scheduled so far.
\<close>

definition same_retry_view :: "'ip SIPAccount \<Rightarrow> 'ip SIPAccount \<Rightarrow> bool" where
  "same_retry_view s s' =
     (m_enabled s' = m_enabled s \<and> m_active s' = m_active s
      \<and> timers_scheduled (events s') = timers_scheduled (events s))"


subsection \<open>SIPAccount::doRegister1_\<close>

text \<open>
  \<^verbatim>\<open>doRegister1_\<close> hands the name of the registrar to the resolver with a continuation;
  the resolver calls the continuation with the addresses it found. In the model
  \<open>resolveSrvName name transport\<close> is the list the resolver comes back with, and the
  continuation runs at once; the account is alive when it runs (\<^verbatim>\<open>w.lock()\<close> succeeds).
  \<^verbatim>\<open>doRegister2_\<close>, which sets the transport up and sends the REGISTER request, is the
  parameter \<open>doRegister2\<close>: all that \<^verbatim>\<open>doRegister1_\<close> does with it is to call it.
\<close>

definition PJSIP_TRANSPORT_UDP :: nat where "PJSIP_TRANSPORT_UDP = 1"
definition PJSIP_TRANSPORT_TLS :: nat where "PJSIP_TRANSPORT_TLS = 3"

definition getServiceRoute :: "'ip SIPAccount \<Rightarrow> string" where
  "getServiceRoute s = m_serviceRoute s"

definition doRegister1 ::
  "(string \<Rightarrow> nat \<Rightarrow> 'ip list) \<Rightarrow> ('ip SIPAccount \<Rightarrow> 'ip SIPAccount)
     \<Rightarrow> 'ip SIPAccount \<Rightarrow> 'ip SIPAccount" where
  "doRegister1 resolveSrvName doRegister2 s =
     (if isIP2IP s then doRegister2 s
      else
        case resolveSrvName (if hasServiceRoute s then getServiceRoute s else m_hostname s)
               (if m_tlsEnable s then PJSIP_TRANSPORT_TLS else PJSIP_TRANSPORT_UDP) of
          [] \<Rightarrow> setRegistrationState ERROR_GENERIC PJSIP_SC_NOT_FOUND s
        | ip # ips \<Rightarrow> doRegister2 (s\<lparr>m_hostIp := ip\<rparr>))"

text \<open>The REGISTER and unREGISTER requests handed to \<^verbatim>\<open>pjsip_regc_send\<close>.\<close>

definition requests_sent :: "event list \<Rightarrow> sip_request list" where
  "requests_sent es = concat (map (\<lambda>e. case e of Regc_send r q \<Rightarrow> [q] | _ \<Rightarrow> []) es)"

subsection \<open>SIPAccount::sendUnregister, SIPAccount::setTransport, SIPAccount::doUnregister\<close>

text \<open>
  Whether the calls of \<^verbatim>\<open>sendUnregister\<close> into pjsip return \<^verbatim>\<open>PJ_SUCCESS\<close>.
\<close>

record pjsip_results =
  regc_unregister_ok :: bool
  regc_set_transport_ok :: bool
  regc_send_ok :: bool

datatype VoipLinkException = VoipLinkException string

text \<open>
  \<^verbatim>\<open>getTransportSelector\<close> gives a selector whose transport is the \<^verbatim>\<open>pjsip_transport\<close>
  of \<^verbatim>\<open>transport_\<close>, and a null pointer when \<^verbatim>\<open>transport_\<close> is null (a
  \<^verbatim>\<open>SipTransport\<close> always holds a transport).
\<close>

definition getTransportSelector :: "'ip SIPAccount \<Rightarrow> pjsip_transport option" where
  "getTransportSelector s = m_transport s"

text \<open>
  Reading a member through a null pointer: the program does not go on. This is the
  outcome of \<^verbatim>\<open>tp_sel.u.transport->key.type\<close> when the transport of the selector is null.
\<close>

datatype fault = Null_pointer_dereference

text \<open>
  \<^verbatim>\<open>sendUnregister\<close>: a fault, or the exception thrown, if any, with the account at that
  point. The argument of \<^verbatim>\<open>setUpTransmissionData\<close>, \<^verbatim>\<open>tp_sel.u.transport->key.type\<close>,
  is read after \<^verbatim>\<open>pjsip_regc_set_transport\<close> has succeeded and before
  \<^verbatim>\<open>pjsip_regc_send\<close> is called; \<^verbatim>\<open>setUpTransmissionData\<close> itself fills the destination
  of the request and changes nothing of the account. The event \<open>Regc_send\<close> is the call
  of \<^verbatim>\<open>pjsip_regc_send\<close>, whatever its status.
\<close>

definition sendUnregister ::
  "pjsip_results \<Rightarrow> 'ip SIPAccount
     \<Rightarrow> fault + (VoipLinkException option \<times> 'ip SIPAccount)" where
  "sendUnregister P s =
     (if \<not> isRegistered s then Inr (None, setRegistrationState UNREGISTERED 0 s)
      else
        let s1 = setRegister False s
        in case getRegistrationInfo s1 of
             None \<Rightarrow> Inr (Some (VoipLinkException ''Registration structure is NULL''), s1)
           | Some r \<Rightarrow>
               if \<not> regc_unregister_ok P
               then Inr (Some (VoipLinkException ''Unable to unregister sip account''), s1)
               else if \<not> regc_set_transport_ok P
               then Inr (Some (VoipLinkException ''Unable to set transport''), s1)
               else
                 case getTransportSelector s1 of
                   None \<Rightarrow> Inl Null_pointer_dereference
                 | Some tp \<Rightarrow>
                     let s2 = emit (Regc_send r UNREGISTER) s1
                     in if \<not> regc_send_ok P
                        then Inr (Some (VoipLinkException
                                ''Unable to send request to unregister sip account''), s2)
                        else Inr (None, s2))"

text \<open>
  \<^verbatim>\<open>setTransport()\<close> with its default argument, a null pointer: after the assignment the
  test \<^verbatim>\<open>if (transport_)\<close> fails, so the contact address is not computed again.
\<close>

definition setTransport_nullptr :: "'ip SIPAccount \<Rightarrow> 'ip SIPAccount" where
  "setTransport_nullptr s =
     (case m_transport s of
        None \<Rightarrow> s
      | Some t \<Rightarrow>
          let s1 = (case m_regc s of None \<Rightarrow> s | Some r \<Rightarrow> emit (Regc_release_transport r) s);
              s2 = emit (Remove_state_listener (tp_ptr t)) s1
          in s2\<lparr>m_transport := None\<rparr>)"

text \<open>
  \<^verbatim>\<open>doUnregister(released_cb)\<close>: a fault, or the argument given to \<^verbatim>\<open>released_cb\<close> with
  the account afterwards. An exception of \<^verbatim>\<open>sendUnregister\<close> is caught and logged; a
  fault in it ends the program.
\<close>

definition doUnregister ::
  "pjsip_results \<Rightarrow> 'ip SIPAccount \<Rightarrow> fault + (bool \<times> 'ip SIPAccount)" where
  "doUnregister P s =
     (let s1 = s\<lparr>m_tlsListener := None\<rparr>
      in case (if \<not> isIP2IP s1 then sendUnregister P s1 else Inr (None, s1)) of
           Inl f \<Rightarrow> Inl f
         | Inr (exception, s2) \<Rightarrow>
             let s3 = (if m_transport s2 \<noteq> None then setTransport_nullptr s2 else s2);
                 s4 = resetAutoRegistration s3
             in Inr (\<not> isIP2IP s4, s4))"

section \<open>Credentials (SIPAccount::setCredentials)\<close>

text \<open>
  \<^verbatim>\<open>pj_str(char*)\<close> makes a \<^verbatim>\<open>pj_str_t\<close> of a C string: its length is that of
  \<^verbatim>\<open>strlen\<close>, so the string ends before its first NUL character.
\<close>

definition pj_str :: "string \<Rightarrow> string" where
  "pj_str str = takeWhile (\<lambda>c. c \<noteq> CHR 0x00) str"

text \<open>The keys of a credential map (account_schema.h, not among the sources).\<close>

definition CONFIG_ACCOUNT_REALM :: string where "CONFIG_ACCOUNT_REALM = ''Account.realm''"
definition CONFIG_ACCOUNT_USERNAME :: string where
  "CONFIG_ACCOUNT_USERNAME = ''Account.username''"
definition CONFIG_ACCOUNT_PASSWORD :: string where
  "CONFIG_ACCOUNT_PASSWORD = ''Account.password''"

text \<open>
  \<^verbatim>\<open>pj_val_to_hex_digit(value, p)\<close> of pjlib writes the two hexadecimal digits of the low
  byte of \<open>value\<close>, taken from \<^verbatim>\<open>"0123456789abcdef"\<close>.
\<close>

definition pj_hex_digits :: string where
  "pj_hex_digits = ''0123456789abcdef''"

definition pj_val_to_hex_digit :: "nat \<Rightarrow> string" where
  "pj_val_to_hex_digit v = [pj_hex_digits ! ((v mod 256) div 16), pj_hex_digits ! (v mod 16)]"

text \<open>
  \<^verbatim>\<open>Credentials::computePasswordHash\<close>. The MD5 functions of pjlib are not among the
  sources: \<open>md5\<close> is the function from the bytes fed to \<^verbatim>\<open>pj_md5_update\<close>, in order, to
  the bytes that \<^verbatim>\<open>pj_md5_final\<close> writes into \<^verbatim>\<open>digest[16]\<close>. The loop reads the bytes
  0 to 15 of the digest.
\<close>

definition computePasswordHash :: "(string \<Rightarrow> nat list) \<Rightarrow> Credentials \<Rightarrow> Credentials" where
  "computePasswordHash md5 c =
     (let digest = md5 (username c @ '':'' @ realm c @ '':'' @ password c)
      in c\<lparr>password_h := concat (map (\<lambda>i. pj_val_to_hex_digit (digest ! i)) [0..<16])\<rparr>)"

text \<open>
  One turn of the loop of \<^verbatim>\<open>setCredentials\<close>: the entry put at the back of
  \<^verbatim>\<open>credentials_\<close> and the record put at the back of \<^verbatim>\<open>cred_\<close>. The strings of the
  record point into the entry, which does not change afterwards (room for all entries is
  reserved before the loop), so the record is modelled by the strings it points to.
\<close>

definition new_credentials :: "(string \<Rightarrow> nat list) \<Rightarrow> bool \<Rightarrow> (string \<rightharpoonup> string) \<Rightarrow> Credentials" where
  "new_credentials md5 md5HashingEnabled cred =
     (let c = \<lparr>realm = (case cred CONFIG_ACCOUNT_REALM of Some v \<Rightarrow> v | None \<Rightarrow> []),
               username = (case cred CONFIG_ACCOUNT_USERNAME of Some v \<Rightarrow> v | None \<Rightarrow> []),
               password = (case cred CONFIG_ACCOUNT_PASSWORD of Some v \<Rightarrow> v | None \<Rightarrow> []),
               password_h = []\<rparr>
      in if md5HashingEnabled then computePasswordHash md5 c else c)"

definition new_cred_info :: "Credentials \<Rightarrow> pjsip_cred_info" where
  "new_cred_info c =
     \<lparr>cred_realm = pj_str (realm c),
      cred_scheme = pj_str ''digest'',
      cred_username = pj_str (username c),
      cred_data_type = (if password_h c = [] then PJSIP_CRED_DATA_PLAIN_PASSWD
                        else PJSIP_CRED_DATA_DIGEST),
      cred_data = pj_str (if password_h c = [] then password c else password_h c)\<rparr>"

fun add_credentials ::
  "(string \<Rightarrow> nat list) \<Rightarrow> bool \<Rightarrow> (string \<rightharpoonup> string) list \<Rightarrow> 'ip SIPAccount
     \<Rightarrow> 'ip SIPAccount" where
  "add_credentials md5 md5HashingEnabled [] s = s"
| "add_credentials md5 md5HashingEnabled (cred # creds) s =
     (let c = new_credentials md5 md5HashingEnabled cred
      in add_credentials md5 md5HashingEnabled creds
           (s\<lparr>m_credentials := m_credentials s @ [c], m_cred := m_cred s @ [new_cred_info c]\<rparr>))"

text \<open>
  \<^verbatim>\<open>setCredentials\<close> returns nothing; on an empty list it writes an error to the log and
  returns at once. The result is that error, if any, and the account afterwards.
  \<open>md5HashingEnabled\<close> is \<^verbatim>\<open>Manager::instance().preferences.getMd5Hash()\<close>.
\<close>

datatype credentials_error = Empty_credentials_list

definition setCredentials ::
  "(string \<Rightarrow> nat list) \<Rightarrow> bool \<Rightarrow> (string \<rightharpoonup> string) list \<Rightarrow> 'ip SIPAccount
     \<Rightarrow> credentials_error option \<times> 'ip SIPAccount" where
  "setCredentials md5 md5HashingEnabled creds s =
     (if creds = [] then (Some Empty_credentials_list, s)
      else (None, add_credentials md5 md5HashingEnabled creds
                    (s\<lparr>m_credentials := [], m_cred := []\<rparr>)))"

text \<open>
  The words of the specification: the digest "hex-encoded lowercase", two digits for each
  byte.
\<close>

fun hex_lowercase :: "nat list \<Rightarrow> string" where
  "hex_lowercase [] = []"
| "hex_lowercase (b # bs) =
     ''0123456789abcdef'' ! (b div 16) # ''0123456789abcdef'' ! (b mod 16) # hex_lowercase bs"

section \<open>Authenticated requests (SIPAccount::onComplete)\<close>

text \<open>
  \<^verbatim>\<open>onComplete\<close> is the callback of the transaction of an outgoing message. Its token is
  the \<^verbatim>\<open>ctx\<close> made by \<^verbatim>\<open>sendMessage\<close>: a weak pointer to the account (\<open>acc_alive\<close>
  says whether \<^verbatim>\<open>lock()\<close> gives the account), the destination, the message id and the
  authentication session of pjsip, whose state is a value of a type \<open>'sess\<close>. Of a request
  the model keeps the number of its CSeq header and its other headers; of the event, the
  status code of the transaction, the challenge of the response and the request last sent.
  The number of the CSeq header is a \<^verbatim>\<open>pj_int32_t\<close>: a word of 32 bits, read as a signed
  number by \<open>sint\<close>. Adding 1 to the largest value, 2147483647, is undefined in C++; in the
  model the word wraps around, and what is said of the number as an integer is said for
  the values below the largest.
\<close>

record 'sess ctx =
  acc_alive :: bool
  ctx_to :: string
  ctx_id :: nat
  auth_sess :: 'sess

record pjsip_tx_data =
  cseq :: "32 word"
  headers :: "string list"

record pjsip_event =
  tsx_status_code :: int
  challenge :: string
  last_tx :: pjsip_tx_data

text \<open>
  The two calls into pjsip: \<^verbatim>\<open>pjsip_auth_clt_reinit_req\<close> gives the session afterwards
  and the new request, or \<open>None\<close> when its status is not \<^verbatim>\<open>PJ_SUCCESS\<close>;
  \<open>endpt_send_request_ok\<close> says whether \<^verbatim>\<open>pjsip_endpt_send_request\<close> returns
  \<^verbatim>\<open>PJ_SUCCESS\<close>.
\<close>

record 'sess auth_env =
  auth_clt_reinit_req :: "'sess \<Rightarrow> string \<Rightarrow> pjsip_tx_data \<Rightarrow> 'sess \<times> pjsip_tx_data option"
  endpt_send_request_ok :: "pjsip_tx_data \<Rightarrow> bool"

text \<open>
  What the callback does outside: it hands a request to the endpoint, with the context
  that comes back with the answer, or it reports to \<^verbatim>\<open>messageEngine_.onMessageSent\<close>.
\<close>

datatype 'sess action =
    Send_request pjsip_tx_data "'sess ctx"
  | On_message_sent string nat bool

definition onComplete :: "'sess auth_env \<Rightarrow> 'sess ctx \<Rightarrow> pjsip_event \<Rightarrow> 'sess action list" where
  "onComplete E c event =
     (if \<not> acc_alive c then []
      else if tsx_status_code event = PJSIP_SC_UNAUTHORIZED
              \<or> tsx_status_code event = PJSIP_SC_PROXY_AUTHENTICATION_REQUIRED
      then
        (case auth_clt_reinit_req E (auth_sess c) (challenge event) (last_tx event) of
           (sess, Some new_request) \<Rightarrow>
             let resent = new_request\<lparr>cseq := cseq new_request + 1\<rparr>
             in if endpt_send_request_ok E resent
                then [Send_request resent (c\<lparr>auth_sess := sess\<rparr>)]
                else [On_message_sent (ctx_to c) (ctx_id c) False]
         | (sess, None) \<Rightarrow> [On_message_sent (ctx_to c) (ctx_id c) False])
      else [On_message_sent (ctx_to c) (ctx_id c)
              (tsx_status_code event = PJSIP_SC_OK
               \<or> tsx_status_code event = PJSIP_SC_ACCEPTED)])"

text \<open>
  A request and the answers that come to it and to its resends, in order: each answer is
  a status code with its challenge, and goes to \<^verbatim>\<open>onComplete\<close> with the context and the
  request of the last resend.
\<close>

fun deliver ::
  "'sess auth_env \<Rightarrow> 'sess ctx \<Rightarrow> pjsip_tx_data \<Rightarrow> (int \<times> string) list \<Rightarrow> 'sess action list" where
  "deliver E c tx [] = []"
| "deliver E c tx ((status_code, chal) # answers) =
     (case onComplete E c \<lparr>tsx_status_code = status_code, challenge = chal, last_tx = tx\<rparr> of
        [Send_request tx' c'] \<Rightarrow> Send_request tx' c' # deliver E c' tx' answers
      | actions \<Rightarrow> actions)"

text \<open>The CSeq numbers of the requests resent, and the results reported.\<close>

fun resent_cseqs :: "'sess action list \<Rightarrow> 32 word list" where
  "resent_cseqs [] = []"
| "resent_cseqs (Send_request tx c # as) = cseq tx # resent_cseqs as"
| "resent_cseqs (On_message_sent to' n ok # as) = resent_cseqs as"

fun reported :: "'sess action list \<Rightarrow> bool list" where
  "reported [] = []"
| "reported (Send_request tx c # as) = reported as"
| "reported (On_message_sent to' n ok # as) = ok # reported as"

text \<open>
  An authentication session with credentials for every realm, which answers the
  challenge of a realm once: its state is the list of the realms answered, and it refuses
  a second challenge of a realm in the list.
\<close>

definition answers_each_realm_once :: "string list auth_env" where
  "answers_each_realm_once =
     \<lparr>auth_clt_reinit_req =
        (\<lambda>sess chal tx.
           if chal \<in> set sess then (sess, None)
           else (chal # sess, Some (tx\<lparr>headers := headers tx @ [''Authorization: '' @ chal]\<rparr>))),
      endpt_send_request_ok = (\<lambda>tx. True)\<rparr>"

text \<open>The same session with an endpoint that takes no request.\<close>

definition endpoint_refuses :: "string list auth_env" where
  "endpoint_refuses = answers_each_realm_once\<lparr>endpt_send_request_ok := (\<lambda>tx. False)\<rparr>"

definition example_ctx :: "string list ctx" where
  "example_ctx = \<lparr>acc_alive = True, ctx_to = ''bob'', ctx_id = 42, auth_sess = []\<rparr>"

definition example_request :: pjsip_tx_data where
  "example_request = \<lparr>cseq = 1, headers = []\<rparr>"

subsection \<open>The words of the specification on the NAT check\<close>

text \<open>
  The observed address is "the Via received parameter, else the sent-by host"; the observed
  port is "rport, else the sent-by port, else the transport's default port"; the current
  contact is the contact address of the account, a port of 0 standing for the default port
  of the transport.
\<close>

definition observed_address :: "pjsip_regc_cbparam \<Rightarrow> string" where
  "observed_address param =
     (if recvd_param (msg_info_via (rdata param)) = []
      then sent_by_host (msg_info_via (rdata param))
      else recvd_param (msg_info_via (rdata param)))"

definition observed_port :: "'ip ip_utils \<Rightarrow> pjsip_regc_cbparam \<Rightarrow> int" where
  "observed_port X param =
     (if 1 \<le> rport_param (msg_info_via (rdata param))
      then rport_param (msg_info_via (rdata param))
      else if sent_by_port (msg_info_via (rdata param)) \<noteq> 0
      then sent_by_port (msg_info_via (rdata param))
      else default_port_for_type X (key_type (tp_info_transport (rdata param))))"

definition current_contact :: "'ip ip_utils \<Rightarrow> pjsip_regc_cbparam \<Rightarrow> 'ip SIPAccount \<Rightarrow> 'ip" where
  "current_contact X param s =
     (if getPort X (m_contactAddress s) = 0
      then setPort X (m_contactAddress s)
             (to_uint16 (default_port_for_type X (key_type (tp_info_transport (rdata param)))))
      else m_contactAddress s)"

text \<open>
  The observed address as a socket address: what \<^verbatim>\<open>pj_sockaddr_parse\<close> makes of it,
  with the observed port.
\<close>

definition observed_sockaddr :: "'ip ip_utils \<Rightarrow> pjsip_regc_cbparam \<Rightarrow> 'ip" where
  "observed_sockaddr X param =
     setPort X (snd (pj_sockaddr_parse X (observed_address param) (IpAddr_default X)))
       (to_uint16 (observed_port X param))"

text \<open>
  "Observed and current address and port compare equal": as socket addresses when the
  observed address parses, as strings with equal ports otherwise.
\<close>

definition observed_equals_contact ::
  "'ip ip_utils \<Rightarrow> pjsip_regc_cbparam \<Rightarrow> 'ip SIPAccount \<Rightarrow> bool" where
  "observed_equals_contact X param s =
     (if fst (pj_sockaddr_parse X (observed_address param) (IpAddr_default X))
      then ip_equal X (current_contact X param s) (observed_sockaddr X param)
      else pj_stricmp_eq (toString X (current_contact X param s) False False)
             (observed_address param)
           \<and> int (getPort X (current_contact X param s)) = observed_port X param)"

text \<open>The calls of \<^verbatim>\<open>pjsip_regc_update_contact\<close> among the events.\<close>

definition contact_updates :: "event list \<Rightarrow> string list" where
  "contact_updates es =
     concat (map (\<lambda>e. case e of Regc_update_contact r c \<Rightarrow> [c] | _ \<Rightarrow> []) es)"

section \<open>An implementation of the address operations for IPv4 literals\<close>

text \<open>
  To run the functions above on concrete responses, the operations of \<open>ip_utils\<close> are
  implemented for dotted-quad IPv4 literals, after \<^verbatim>\<open>IpAddr\<close> and pjlib: an address is
  unspecified or four octets and a port; a string parses when it is four decimal numbers
  up to 255 separated by dots; equality compares octets and port; the private addresses are
  the loopback network and the networks 10/8, 172.16/12 and 192.168/16; the default port is
  5061 for TLS (transport type 3) and 5060 otherwise.
\<close>

datatype ipv4_addr = Unspecified | V4 nat nat nat nat nat

fun split_on :: "char \<Rightarrow> string \<Rightarrow> string list" where
  "split_on c [] = [[]]"
| "split_on c (x # xs) =
     (if x = c then [] # split_on c xs
      else (case split_on c xs of [] \<Rightarrow> [[x]] | w # ws \<Rightarrow> (x # w) # ws))"

fun digits_value :: "string \<Rightarrow> nat \<Rightarrow> nat option" where
  "digits_value [] acc = Some acc"
| "digits_value (x # xs) acc =
     (if (48 :: nat) \<le> of_char x \<and> of_char x \<le> (57 :: nat)
      then digits_value xs (acc * 10 + (of_char x - 48))
      else None)"

definition parse_octet :: "string \<Rightarrow> nat option" where
  "parse_octet w =
     (if w = [] \<or> length w > 3 then None
      else case digits_value w 0 of
             None \<Rightarrow> None
           | Some n \<Rightarrow> if n \<le> 255 then Some n else None)"

definition parse_ipv4 :: "string \<Rightarrow> ipv4_addr option" where
  "parse_ipv4 str =
     (case map parse_octet (split_on (CHR ''.'') str) of
        [Some a, Some b, Some c, Some d] \<Rightarrow> Some (V4 a b c d 0)
      | _ \<Rightarrow> None)"

fun ipv4_getPort :: "ipv4_addr \<Rightarrow> nat" where
  "ipv4_getPort Unspecified = 0"
| "ipv4_getPort (V4 a b c d p) = p"

fun ipv4_setPort :: "ipv4_addr \<Rightarrow> nat \<Rightarrow> ipv4_addr" where
  "ipv4_setPort Unspecified p = Unspecified"
| "ipv4_setPort (V4 a b c d _) p = V4 a b c d p"

fun ipv4_isPrivate :: "ipv4_addr \<Rightarrow> bool" where
  "ipv4_isPrivate Unspecified = False"
| "ipv4_isPrivate (V4 a b c d p) =
     (a = 127 \<or> a = 10 \<or> (a = 172 \<and> 16 \<le> b \<and> b \<le> 31) \<or> (a = 192 \<and> b = 168))"

fun ipv4_toString :: "ipv4_addr \<Rightarrow> bool \<Rightarrow> bool \<Rightarrow> string" where
  "ipv4_toString Unspecified include_port brackets = []"
| "ipv4_toString (V4 a b c d p) include_port brackets =
     string_of_nat a @ ''.'' @ string_of_nat b @ ''.'' @ string_of_nat c @ ''.''
       @ string_of_nat d @ (if include_port then '':'' @ string_of_nat p else [])"

definition ipv4_only :: "ipv4_addr ip_utils" where
  "ipv4_only =
     \<lparr>IpAddr_default = Unspecified,
      IpAddr_of_string = (\<lambda>str. case parse_ipv4 str of None \<Rightarrow> Unspecified | Some a \<Rightarrow> a),
      pj_sockaddr_parse =
        (\<lambda>str a. case parse_ipv4 str of None \<Rightarrow> (False, a) | Some b \<Rightarrow> (True, b)),
      getPort = ipv4_getPort,
      setPort = ipv4_setPort,
      ip_equal = (=),
      ip_valid = (\<lambda>a. a \<noteq> Unspecified),
      isPrivate = ipv4_isPrivate,
      toString = ipv4_toString,
      isIpv6_string = (\<lambda>str. False),
      default_port_for_type = (\<lambda>t. if t = 3 then 5061 else 5060),
      pn_provider = []\<rparr>"

text \<open>
  An account for the examples: enabled and active, registered at a registrar with the
  registration structure 1 over the UDP transport 7, contact 203.0.113.5:5060.
\<close>

definition udp_transport :: pjsip_transport where
  "udp_transport = \<lparr>tp_ptr = 7, key_type = 1, is_secure = False\<rparr>"

definition example_account :: "ipv4_addr SIPAccount" where
  "example_account =
     \<lparr>m_enabled = True, m_active = True,
      m_registrationState = TRYING, m_registrationStateDetailed = 0,
      m_hostname = ''sip.example.org'', m_username = ''alice'', m_displayName = [],
      m_deviceKey = [], m_serviceRoute = [], m_tlsEnable = False,
      m_hostIp = V4 198 51 100 7 0,
      m_regc = Some 1, m_bRegister = True,
      auto_rereg_active = False, auto_rereg_timer_id = False,
      auto_rereg_timer_user_data = False, auto_rereg_attempt_cnt = 0,
      m_credentials = [], m_cred = [],
      m_transport = Some udp_transport, m_tlsListener = None,
      m_contactHeader = ''<sip:alice@203.0.113.5:5060>'',
      m_contactAddress = V4 203 0 113 5 5060,
      via_addr_host = [], via_addr_port = 0, m_via_tp = None,
      m_allowIPAutoRewrite = True,
      m_publishedSameasLocal = True, m_publishedIpAddress = [],
      m_publishedIp = Unspecified,
      events = []\<rparr>"

text \<open>
  A response to the REGISTER request of \<open>example_account\<close>, with its status code, the
  \<^verbatim>\<open>received\<close> and \<^verbatim>\<open>rport\<close> parameters of its Via header and the address it came from.
\<close>

definition response :: "int \<Rightarrow> string \<Rightarrow> int \<Rightarrow> string \<Rightarrow> pjsip_regc_cbparam" where
  "response c received rport src =
     \<lparr>regc = Some 1, status = 0, code = c, expiration = 3600,
      rdata = \<lparr>tp_info_transport = udp_transport,
               msg_info_via = \<lparr>rport_param = rport, sent_by_host = ''192.168.1.20'',
                               sent_by_port = 5060, recvd_param = received\<rparr>,
               pkt_info_src_name = src\<rparr>\<rparr>"

definition example_timer :: timer_env where
  "example_timer = \<lparr>draw_zero = - 9999, draw_pos = 7, schedule_ok = True\<rparr>"

text \<open>
  A callback with a failed status (\<^verbatim>\<open>param->status != PJ_SUCCESS\<close>) that carries the
  code 403.
\<close>

definition failed_status_403 :: pjsip_regc_cbparam where
  "failed_status_403 = (response 403 [] 0 [])\<lparr>status := 70001\<rparr>"

text \<open>A resolver that finds no address, and a direct-IP account (no registrar).\<close>

definition resolves_nothing :: "string \<Rightarrow> nat \<Rightarrow> ipv4_addr list" where
  "resolves_nothing name transport = []"

definition ip2ip_account :: "ipv4_addr SIPAccount" where
  "ip2ip_account = example_account\<lparr>m_hostname := [], m_regc := None, m_bRegister := False\<rparr>"

definition all_ok :: pjsip_results where
  "all_ok = \<lparr>regc_unregister_ok = True, regc_set_transport_ok = True, regc_send_ok = True\<rparr>"

text \<open>
  The account of the examples after its transport was lost: \<^verbatim>\<open>transport_\<close> is null, the
  registration structure and the registration flag are still there.
\<close>

definition no_transport_account :: "ipv4_addr SIPAccount" where
  "no_transport_account = example_account\<lparr>m_transport := None\<rparr>"

section \<open>MD5\<close>

text \<open>
  An instance of the digest function of \<open>computePasswordHash\<close>: MD5 as RFC 1321 defines
  it, on bytes given as numbers below 256. The message is padded with the byte 128, zero
  bytes and its length in bits on 8 bytes; each block of 64 bytes is 16 words of 32 bits,
  the least significant byte first, and goes through 64 steps; the digest is the four
  words of the state, the least significant byte first.
\<close>

definition md5_s :: "nat list" where
  "md5_s = [7, 12, 17, 22, 7, 12, 17, 22, 7, 12, 17, 22, 7, 12, 17, 22,
            5, 9, 14, 20, 5, 9, 14, 20, 5, 9, 14, 20, 5, 9, 14, 20,
            4, 11, 16, 23, 4, 11, 16, 23, 4, 11, 16, 23, 4, 11, 16, 23,
            6, 10, 15, 21, 6, 10, 15, 21, 6, 10, 15, 21, 6, 10, 15, 21]"

definition md5_K :: "32 word list" where
  "md5_K = [0xd76aa478, 0xe8c7b756, 0x242070db, 0xc1bdceee, 0xf57c0faf, 0x4787c62a,
            0xa8304613, 0xfd469501, 0x698098d8, 0x8b44f7af, 0xffff5bb1, 0x895cd7be,
            0x6b901122, 0xfd987193, 0xa679438e, 0x49b40821, 0xf61e2562, 0xc040b340,
            0x265e5a51, 0xe9b6c7aa, 0xd62f105d, 0x02441453, 0xd8a1e681, 0xe7d3fbc8,
            0x21e1cde6, 0xc33707d6, 0xf4d50d87, 0x455a14ed, 0xa9e3e905, 0xfcefa3f8,
            0x676f02d9, 0x8d2a4c8a, 0xfffa3942, 0x8771f681, 0x6d9d6122, 0xfde5380c,
            0xa4beea44, 0x4bdecfa9, 0xf6bb4b60, 0xbebfbc70, 0x289b7ec6, 0xeaa127fa,
            0xd4ef3085, 0x04881d05, 0xd9d4d039, 0xe6db99e5, 0x1fa27cf8, 0xc4ac5665,
            0xf4292244, 0x432aff97, 0xab9423a7, 0xfc93a039, 0x655b59c3, 0x8f0ccc92,
            0xffeff47d, 0x85845dd1, 0x6fa87e4f, 0xfe2ce6e0, 0xa3014314, 0x4e0811a1,
            0xf7537e82, 0xbd3af235, 0x2ad7d2bb, 0xeb86d391]"

text \<open>The four bytes of a number below 2 ^ 32, the least significant first.\<close>

definition le_bytes4 :: "nat \<Rightarrow> nat list" where
  "le_bytes4 n = [n mod 256, n div 256 mod 256, n div 65536 mod 256, n div 16777216 mod 256]"

definition md5_pad :: "nat list \<Rightarrow> nat list" where
  "md5_pad bs = bs @ [128] @ replicate ((119 - length bs mod 64) mod 64) 0
                  @ le_bytes4 (8 * length bs mod 4294967296)
                  @ le_bytes4 (8 * length bs div 4294967296 mod 4294967296)"

fun le_words :: "nat list \<Rightarrow> 32 word list" where
  "le_words (b0 # b1 # b2 # b3 # bs) =
     word_of_nat (b0 + 256 * b1 + 65536 * b2 + 16777216 * b3) # le_words bs"
| "le_words _ = []"

fun md5_blocks :: "nat \<Rightarrow> 32 word list \<Rightarrow> 32 word list list" where
  "md5_blocks 0 ws = []"
| "md5_blocks (Suc k) ws = take 16 ws # md5_blocks k (drop 16 ws)"

definition rotl32 :: "nat \<Rightarrow> 32 word \<Rightarrow> 32 word" where
  "rotl32 n w = push_bit n w OR drop_bit (32 - n) w"

definition md5_step ::
  "32 word list \<Rightarrow> 32 word \<times> 32 word \<times> 32 word \<times> 32 word \<Rightarrow> nat
     \<Rightarrow> 32 word \<times> 32 word \<times> 32 word \<times> 32 word" where
  "md5_step M st i =
     (case st of (A, B, C, D) \<Rightarrow>
        let F = (if i < 16 then (B AND C) OR (NOT B AND D)
                 else if i < 32 then (D AND B) OR (NOT D AND C)
                 else if i < 48 then B XOR C XOR D
                 else C XOR (B OR NOT D));
            g = (if i < 16 then i
                 else if i < 32 then (5 * i + 1) mod 16
                 else if i < 48 then (3 * i + 5) mod 16
                 else (7 * i) mod 16)
        in (D, B + rotl32 (md5_s ! i) (F + A + md5_K ! i + M ! g), B, C))"

text \<open>The steps \<open>i\<close>, \<open>i + 1\<close>, ... of a block, \<open>n\<close> of them.\<close>

fun md5_steps ::
  "32 word list \<Rightarrow> nat \<Rightarrow> nat \<Rightarrow> 32 word \<times> 32 word \<times> 32 word \<times> 32 word
     \<Rightarrow> 32 word \<times> 32 word \<times> 32 word \<times> 32 word" where
  "md5_steps M 0 i st = st"
| "md5_steps M (Suc n) i st = md5_steps M n (i + 1) (md5_step M st i)"

definition md5_block ::
  "32 word \<times> 32 word \<times> 32 word \<times> 32 word \<Rightarrow> 32 word list
     \<Rightarrow> 32 word \<times> 32 word \<times> 32 word \<times> 32 word" where
  "md5_block st M =
     (case (st, md5_steps M 64 0 st) of
        ((a0, b0, c0, d0), (A, B, C, D)) \<Rightarrow> (a0 + A, b0 + B, c0 + C, d0 + D))"

definition md5_bytes :: "nat list \<Rightarrow> nat list" where
  "md5_bytes bs =
     (case foldl md5_block (0x67452301, 0xefcdab89, 0x98badcfe, 0x10325476)
             (md5_blocks (length (md5_pad bs) div 64) (le_words (md5_pad bs))) of
        (a, b, c, d) \<Rightarrow> concat (map (\<lambda>w. le_bytes4 (unat w)) [a, b, c, d]))"

definition md5_rfc1321 :: "string \<Rightarrow> nat list" where
  "md5_rfc1321 str = md5_bytes (map of_char str)"

text \<open>A list of one credential: realm, user name and password.\<close>

definition example_credentials :: "(string \<rightharpoonup> string) list" where
  "example_credentials =
     [[CONFIG_ACCOUNT_REALM \<mapsto> ''example.org'', CONFIG_ACCOUNT_USERNAME \<mapsto> ''alice'',
       CONFIG_ACCOUNT_PASSWORD \<mapsto> ''secret'']]"

section \<open>Properties of the delay\<close>

lemma msec_borrow_total:
  "m \<le> - 1000 \<Longrightarrow> msec_borrow s m = (s', m') \<Longrightarrow>
     s' * 1000 + m' = s * 1000 + m \<and> - 1000 < m' \<and> m' \<le> 0"
proof (induction s m arbitrary: s' m' rule: msec_borrow.induct)
  case (1 s m)
  show ?case
  proof (cases "m + 1000 \<le> - 1000")
    case True
    with "1.prems" have "msec_borrow (s - 1) (m + 1000) = (s', m')"
      by (simp add: msec_borrow.simps [of s m] Let_def)
    with "1.IH" [OF refl refl True True] have
      "s' * 1000 + m' = (s - 1) * 1000 + (m + 1000) \<and> - 1000 < m' \<and> m' \<le> 0"
      by blast
    then show ?thesis by (simp add: algebra_simps)
  next
    case False
    with "1.prems" have "s' = s - 1" "m' = m + 1000"
      by (simp_all add: msec_borrow.simps [of s m] Let_def)
    with False "1.prems" show ?thesis by (simp add: algebra_simps)
  qed
qed

lemma normalize_total:
  "total_msec (pj_time_val_normalize t) = total_msec t"
proof -
  consider (pos) "msec t \<ge> 1000" | (neg) "msec t \<le> - 1000"
    | (mid) "- 1000 < msec t" "msec t < 1000"
    by linarith
  then show ?thesis
  proof cases
    case pos
    have "msec t div 1000 * 1000 + msec t mod 1000 = msec t" by simp
    with pos show ?thesis
      by (auto simp add: pj_time_val_normalize_def total_msec_def Let_def algebra_simps)
  next
    case neg
    obtain s' m' where b: "msec_borrow (sec t) (msec t) = (s', m')"
      by (cases "msec_borrow (sec t) (msec t)")
    from msec_borrow_total [OF neg b] neg b show ?thesis
      by (auto simp add: pj_time_val_normalize_def total_msec_def Let_def algebra_simps)
  next
    case mid
    then show ?thesis
      by (auto simp add: pj_time_val_normalize_def total_msec_def Let_def algebra_simps)
  qed
qed

lemma whole_seconds_nonneg:
  fixes a r :: int
  shows "0 \<le> a * 1000 + r \<Longrightarrow> r < 1000 \<Longrightarrow> 0 \<le> a"
  by arith

lemma normalize_msec_range:
  assumes "0 \<le> total_msec t"
  shows "0 \<le> msec (pj_time_val_normalize t) \<and> msec (pj_time_val_normalize t) < 1000"
proof -
  consider (pos) "msec t \<ge> 1000" | (neg) "msec t \<le> - 1000"
    | (mid) "- 1000 < msec t" "msec t < 1000"
    by linarith
  then show ?thesis
  proof cases
    case pos
    have r: "0 \<le> msec t mod 1000" "msec t mod 1000 < 1000" by simp_all
    have "msec t div 1000 * 1000 + msec t mod 1000 = msec t" by simp
    with assms have "0 \<le> (sec t + msec t div 1000) * 1000 + msec t mod 1000"
      by (simp add: total_msec_def algebra_simps)
    then have "0 \<le> sec t + msec t div 1000"
      using r(2) by (rule whole_seconds_nonneg)
    with pos r show ?thesis
      by (auto simp add: pj_time_val_normalize_def Let_def)
  next
    case neg
    obtain s' m' where b: "msec_borrow (sec t) (msec t) = (s', m')"
      by (cases "msec_borrow (sec t) (msec t)")
    from msec_borrow_total [OF neg b] assms have
      "s' * 1000 + m' \<ge> 0" "- 1000 < m'" "m' \<le> 0"
      by (simp_all add: total_msec_def)
    then have "m' < 0 \<longrightarrow> s' \<ge> 1" by arith
    with \<open>- 1000 < m'\<close> \<open>m' \<le> 0\<close> neg b show ?thesis
      by (auto simp add: pj_time_val_normalize_def Let_def)
  next
    case mid
    with assms have "msec t < 0 \<longrightarrow> sec t \<ge> 1"
      by (auto simp add: total_msec_def)
    moreover from assms mid have "0 \<le> sec t"
      by (auto simp add: total_msec_def intro: whole_seconds_nonneg)
    ultimately show ?thesis using mid
      by (auto simp add: pj_time_val_normalize_def Let_def)
  qed
qed

lemma randomize_interval_total:
  "total_msec (randomize_interval base jz jp) =
     (if base \<ge> 10 then base * 1000 + jz else jp)"
  by (simp add: randomize_interval_def normalize_total) (simp add: total_msec_def)

lemma sec_from_total:
  fixes s m b :: int
  assumes "(b - 10) * 1000 \<le> s * 1000 + m" "s * 1000 + m \<le> (b + 10) * 1000"
    and "0 \<le> m" "m < 1000"
  shows "b - 10 \<le> s \<and> s \<le> b + 10"
proof -
  from assms have "(b - 10) * 1000 < (s + 1) * 1000"
    by (simp add: algebra_simps)
  then have "b - 10 < s + 1" by simp
  moreover from assms have "s * 1000 \<le> (b + 10) * 1000"
    by (simp add: algebra_simps)
  then have "s \<le> b + 10" by simp
  ultimately show ?thesis by simp
qed

text \<open>
  C1. With a draw \<open>jz\<close> of the distribution on [-10000, 10000] and a draw \<open>jp\<close> of the one
  on [0, 10000]: the delay scheduled at attempt \<open>n\<close> has base 60 s when \<open>n = 0\<close> and 300 s
  otherwise, and its normalised value is at least base - 10 s and at most base + 10 s, as a
  length in milliseconds and in its seconds field, the millisecond field being within
  [0, 1000). For every base of at least 10 s the randomised interval is within
  [base - 10 s, base + 10 s], and for every base below 10 s it is within [0, 10 s].
\<close>

theorem reregistration_delay_within_10s:
  "- 10000 \<le> jz \<Longrightarrow> jz \<le> 10000 \<Longrightarrow> 0 \<le> jp \<Longrightarrow> jp \<le> 10000 \<Longrightarrow>
   (let d = reregistration_delay n jz jp; b = (if n = 0 then 60 else 300)
    in retry_interval n = b
       \<and> (b - 10) * 1000 \<le> total_msec d \<and> total_msec d \<le> (b + 10) * 1000
       \<and> b - 10 \<le> sec d \<and> sec d \<le> b + 10 \<and> 0 \<le> msec d \<and> msec d < 1000)
   \<and> (\<forall>base.
        (10 \<le> base \<longrightarrow>
           (base - 10) * 1000 \<le> total_msec (randomize_interval base jz jp)
           \<and> total_msec (randomize_interval base jz jp) \<le> (base + 10) * 1000)
        \<and> (base < 10 \<longrightarrow>
           0 \<le> total_msec (randomize_interval base jz jp)
           \<and> total_msec (randomize_interval base jz jp) \<le> 10 * 1000))"
proof -
  assume j: "- 10000 \<le> jz" "jz \<le> 10000" "0 \<le> jp" "jp \<le> 10000"
  define b :: int where "b = (if n = 0 then 60 else 300)"
  define d where "d = reregistration_delay n jz jp"
  have rb: "retry_interval n = b"
    by (simp add: retry_interval_def b_def REGISTRATION_RETRY_INTERVAL_def
        REGISTRATION_FIRST_RETRY_INTERVAL_def)
  have b10: "10 \<le> b" by (simp add: b_def)
  have tot: "total_msec d = b * 1000 + jz"
    using b10 by (simp add: d_def reregistration_delay_def rb randomize_interval_total)
  have lo: "(b - 10) * 1000 \<le> total_msec d" and hi: "total_msec d \<le> (b + 10) * 1000"
    using j tot by (simp_all add: algebra_simps)
  have nonneg: "0 \<le> total_msec (if b \<ge> 10 then \<lparr>sec = b, msec = jz\<rparr> else \<lparr>sec = 0, msec = jp\<rparr>)"
    using b10 j by (simp add: total_msec_def)
  have ms: "0 \<le> msec d \<and> msec d < 1000"
    unfolding d_def reregistration_delay_def rb randomize_interval_def
    by (rule normalize_msec_range [OF nonneg])
  have "b - 10 \<le> sec d \<and> sec d \<le> b + 10"
    using lo hi ms by (intro sec_from_total [where m = "msec d"]) (simp_all add: total_msec_def)
  with rb lo hi ms have first: "let d = reregistration_delay n jz jp; b = (if n = 0 then 60 else 300)
    in retry_interval n = b
       \<and> (b - 10) * 1000 \<le> total_msec d \<and> total_msec d \<le> (b + 10) * 1000
       \<and> b - 10 \<le> sec d \<and> sec d \<le> b + 10 \<and> 0 \<le> msec d \<and> msec d < 1000"
    unfolding Let_def b_def [symmetric] d_def [symmetric] by simp
  have second: "\<forall>base.
        (10 \<le> base \<longrightarrow>
           (base - 10) * 1000 \<le> total_msec (randomize_interval base jz jp)
           \<and> total_msec (randomize_interval base jz jp) \<le> (base + 10) * 1000)
        \<and> (base < 10 \<longrightarrow>
           0 \<le> total_msec (randomize_interval base jz jp)
           \<and> total_msec (randomize_interval base jz jp) \<le> 10 * 1000)"
    using j by (simp add: randomize_interval_total algebra_simps)
  from first second show ?thesis by blast
qed

theorem reregistration_delay_within_10s_witness:
  "- 10000 \<le> (- 9999 :: int) \<and> (- 9999 :: int) \<le> 10000 \<and> 0 \<le> (7 :: int) \<and> (7 :: int) \<le> 10000
   \<and> 50 * 1000 \<le> total_msec (reregistration_delay 0 (- 9999) 7)
   \<and> total_msec (reregistration_delay 0 (- 9999) 7) \<le> 70 * 1000
   \<and> 50 \<le> sec (reregistration_delay 0 (- 9999) 7)
   \<and> 290 * 1000 \<le> total_msec (randomize_interval 300 (- 9999) 7)
   \<and> total_msec (randomize_interval 3 (- 9999) 7) \<le> 10 * 1000"
proof -
  have h: "- 10000 \<le> (- 9999 :: int)" "(- 9999 :: int) \<le> 10000" "0 \<le> (7 :: int)"
    "(7 :: int) \<le> 10000"
    by simp_all
  note t = reregistration_delay_within_10s [of "- 9999" 7 0, OF h]
  from t have a: "50 * 1000 \<le> total_msec (reregistration_delay 0 (- 9999) 7)
    \<and> total_msec (reregistration_delay 0 (- 9999) 7) \<le> 70 * 1000
    \<and> 50 \<le> sec (reregistration_delay 0 (- 9999) 7)"
    by (simp add: Let_def)
  from t have q: "\<forall>base.
        (10 \<le> base \<longrightarrow>
           (base - 10) * 1000 \<le> total_msec (randomize_interval base (- 9999) 7)
           \<and> total_msec (randomize_interval base (- 9999) 7) \<le> (base + 10) * 1000)
        \<and> (base < 10 \<longrightarrow>
           0 \<le> total_msec (randomize_interval base (- 9999) 7)
           \<and> total_msec (randomize_interval base (- 9999) 7) \<le> 10 * 1000)"
    by (rule conjunct2)
  from q [THEN spec, of 300] have b: "290 * 1000 \<le> total_msec (randomize_interval 300 (- 9999) 7)"
    by simp
  from q [THEN spec, of 3] have c: "total_msec (randomize_interval 3 (- 9999) 7) \<le> 10 * 1000"
    by simp
  from a b c show ?thesis by simp
qed

lemma div_mod_minus_1000: fixes a :: int shows "(a - 1000) div 1000 = a div 1000 - 1" "(a - 1000) mod 1000 = a mod 1000"
  using div_add_self2 [of 1000 "a - 1000"] mod_add_self2 [of "a - 1000" 1000] by simp_all

lemma msec_borrow_closed:
  "m \<le> - 1000 \<Longrightarrow> msec_borrow s m = (s - (- m) div 1000, - ((- m) mod 1000))"
proof (induction s m rule: msec_borrow.induct)
  case (1 s m)
  show ?case
  proof (cases "m + 1000 \<le> - 1000")
    case True
    have "msec_borrow s m = msec_borrow (s - 1) (m + 1000)"
      using True by (simp add: msec_borrow.simps [of s m] Let_def)
    also have "\<dots> = (s - 1 - (- (m + 1000)) div 1000, - ((- (m + 1000)) mod 1000))"
      using "1.IH" [OF refl refl True True] .
    also have "\<dots> = (s - (- m) div 1000, - ((- m) mod 1000))"
      using div_mod_minus_1000 [of "- m"] by (simp add: algebra_simps)
    finally show ?thesis .
  next
    case False
    have e: "- m = 1000 * 1 + (- m - 1000)" by simp
    from False "1.prems" have r: "0 \<le> - m - 1000" "- m - 1000 < 1000" by simp_all
    have "(- m) div 1000 = 1" "(- m) mod 1000 = - m - 1000"
      using int_div_pos_eq [OF e r] int_mod_pos_eq [OF e r] by simp_all
    with False show ?thesis
      by (simp add: msec_borrow.simps [of s m] Let_def)
  qed
qed

lemma reregistration_delay_examples:
  "reregistration_delay 0 (- 9999) 7 = \<lparr>sec = 50, msec = 1\<rparr>"
  "reregistration_delay 0 (- 10000) 7 = \<lparr>sec = 50, msec = 0\<rparr>"
  "reregistration_delay 3 10000 7 = \<lparr>sec = 310, msec = 0\<rparr>"
  "reregistration_delay 1 (- 1) 7 = \<lparr>sec = 299, msec = 999\<rparr>"
  "randomize_interval 3 0 10000 = \<lparr>sec = 10, msec = 0\<rparr>"
  by (simp_all add: reregistration_delay_def randomize_interval_def retry_interval_def
      REGISTRATION_RETRY_INTERVAL_def REGISTRATION_FIRST_RETRY_INTERVAL_def
      pj_time_val_normalize_def msec_borrow_closed Let_def)

section \<open>Properties of the registration callback\<close>

lemma timers_scheduled_append [simp]:
  "timers_scheduled (es @ fs) = timers_scheduled es @ timers_scheduled fs"
  by (simp add: timers_scheduled_def)

lemma timers_scheduled_simps [simp]:
  "timers_scheduled [] = []"
  "timers_scheduled (Schedule_timer d # es) = d # timers_scheduled es"
  "timers_scheduled (Cancel_timer # es) = timers_scheduled es"
  "timers_scheduled (Regc_destroy r # es) = timers_scheduled es"
  "timers_scheduled (Regc_set_via_sent_by ro h p t # es) = timers_scheduled es"
  "timers_scheduled (Regc_update_contact r c # es) = timers_scheduled es"
  "timers_scheduled (Regc_set_route_set ro c # es) = timers_scheduled es"
  "timers_scheduled (Regc_release_transport r # es) = timers_scheduled es"
  "timers_scheduled (Regc_send r q # es) = timers_scheduled es"
  "timers_scheduled (Remove_state_listener r # es) = timers_scheduled es"
  by (simp_all add: timers_scheduled_def)

lemma same_retry_view_refl [simp]: "same_retry_view s s"
  by (simp add: same_retry_view_def)

lemma same_retry_view_trans:
  "same_retry_view s s' \<Longrightarrow> same_retry_view s' s'' \<Longrightarrow> same_retry_view s s''"
  by (simp add: same_retry_view_def)

lemma view_setRegistrationState [simp]:
  "same_retry_view s (setRegistrationState st c s') = same_retry_view s s'"
  by (simp add: same_retry_view_def setRegistrationState_def)

lemma view_destroyRegistrationInfo [simp]:
  "same_retry_view s (destroyRegistrationInfo s') = same_retry_view s s'"
  by (simp add: same_retry_view_def destroyRegistrationInfo_def emit_def split: option.splits)

lemma view_resetAutoRegistration [simp]:
  "same_retry_view s (resetAutoRegistration s') = same_retry_view s s'"
  by (simp add: same_retry_view_def resetAutoRegistration_def)

lemma view_nat_update_via [simp]:
  "same_retry_view s (nat_update_via X param s') = same_retry_view s s'"
  by (simp add: same_retry_view_def nat_update_via_def emit_def Let_def)

lemma view_nat_set_published [simp]:
  "same_retry_view s (nat_set_published X param s') = same_retry_view s s'"
  by (simp add: same_retry_view_def nat_set_published_def)

lemma view_nat_rewrite_contact [simp]:
  "same_retry_view s (snd (nat_rewrite_contact X param s')) = same_retry_view s s'"
  by (simp add: same_retry_view_def nat_rewrite_contact_def emit_def Let_def split: option.splits)

lemma view_checkNATAddress [simp]:
  "same_retry_view s (snd (checkNATAddress X param s')) = same_retry_view s s'"
  by (simp add: checkNATAddress_def Let_def)

lemma view_route_set [simp]:
  "same_retry_view s (emit (Regc_set_route_set r x) s') = same_retry_view s s'"
  by (simp add: same_retry_view_def emit_def)

lemma view_register_response: "same_retry_view s (register_response X param s)"
  by (simp add: register_response_def Let_def)

lemma scheduleReregistration_timers:
  "isUsable s \<Longrightarrow>
   timers_scheduled (events (scheduleReregistration T s)) =
     timers_scheduled (events s)
       @ [reregistration_delay (auto_rereg_attempt_cnt s) (draw_zero T) (draw_pos T)]"
  by (simp add: scheduleReregistration_def Let_def emit_def)

lemma scheduleReregistration_active:
  "isUsable s \<Longrightarrow> auto_rereg_active (scheduleReregistration T s)"
  by (simp add: scheduleReregistration_def Let_def emit_def)

lemma scheduleReregistration_keeps:
  "m_regc (scheduleReregistration T s) = m_regc s"
  "m_registrationState (scheduleReregistration T s) = m_registrationState s"
  "m_registrationStateDetailed (scheduleReregistration T s) = m_registrationStateDetailed s"
  "m_contactHeader (scheduleReregistration T s) = m_contactHeader s"
  by (simp_all add: scheduleReregistration_def Let_def emit_def)

lemma register_response_failure_cnt:
  "status param \<noteq> PJ_SUCCESS \<or> code param < 0 \<or> 300 \<le> code param \<Longrightarrow>
   auto_rereg_attempt_cnt (register_response X param s) = auto_rereg_attempt_cnt s"
  by (auto simp add: register_response_def Let_def setRegistrationState_def
      destroyRegistrationInfo_def emit_def split: option.splits)

lemma in_class_600: "PJSIP_IS_STATUS_IN_CLASS c 600 = (600 \<le> c \<and> c \<le> 699)"
proof (cases "c < 0")
  case True
  then have "- (\<bar>c\<bar> div 100) \<le> 0" by simp
  with True show ?thesis
    by (simp add: PJSIP_IS_STATUS_IN_CLASS_def c_div_def)
next
  case False
  then have "(c div 100 = 6) = (600 \<le> c \<and> c \<le> 699)" by auto
  with False show ?thesis
    by (simp add: PJSIP_IS_STATUS_IN_CLASS_def c_div_def)
qed

text \<open>
  C2. When the callback is for the registration structure of the account and the account
  is usable, the call of \<^verbatim>\<open>onRegister\<close> hands one more delay to the timer, the delay of
  the current attempt, and leaves the retry active, if the status code is 408, 500, 502,
  503, 504 or one of 600..699; for every other code it hands no delay to the timer.
\<close>

theorem onRegister_schedules_retry_iff:
  assumes "regc param = getRegistrationInfo s" and "isUsable s"
  shows "timers_scheduled (events (onRegister X T param s)) =
           timers_scheduled (events s)
             @ (if code param \<in> {408, 500, 502, 503, 504}
                   \<or> (600 \<le> code param \<and> code param \<le> 699)
                then [reregistration_delay (auto_rereg_attempt_cnt s) (draw_zero T) (draw_pos T)]
                else [])
         \<and> (code param \<in> {408, 500, 502, 503, 504} \<or> (600 \<le> code param \<and> code param \<le> 699)
              \<longrightarrow> auto_rereg_active (onRegister X T param s))"
proof -
  let ?s1 = "register_response X param s"
  have v: "same_retry_view s ?s1" by (rule view_register_response)
  then have u: "isUsable ?s1" and t: "timers_scheduled (events ?s1) = timers_scheduled (events s)"
    using assms(2) by (simp_all add: same_retry_view_def isUsable_def)
  show ?thesis
  proof (cases "code param \<in> {408, 500, 502, 503, 504}
                 \<or> (600 \<le> code param \<and> code param \<le> 699)")
    case True
    then have f: "status param \<noteq> PJ_SUCCESS \<or> code param < 0 \<or> 300 \<le> code param"
      by auto
    from True have "onRegister X T param s = scheduleReregistration T ?s1"
      using assms(1) by (auto simp add: onRegister_def Let_def in_class_600 status_code_defs)
    with True scheduleReregistration_timers [OF u, of T] scheduleReregistration_active [OF u, of T]
      register_response_failure_cnt [OF f, of X s] t
    show ?thesis by simp
  next
    case False
    then have "onRegister X T param s = ?s1"
      using assms(1) by (auto simp add: onRegister_def Let_def in_class_600 status_code_defs)
    with False t show ?thesis by auto
  qed
qed

theorem onRegister_schedules_retry_iff_witness:
  "regc (response 503 [] 0 []) = getRegistrationInfo example_account
   \<and> regc (response 403 [] 0 []) = getRegistrationInfo example_account
   \<and> isUsable example_account
   \<and> timers_scheduled (events (onRegister ipv4_only example_timer (response 503 [] 0 [])
        example_account)) = [\<lparr>sec = 50, msec = 1\<rparr>]
   \<and> auto_rereg_active (onRegister ipv4_only example_timer (response 503 [] 0 [])
        example_account)
   \<and> timers_scheduled (events (onRegister ipv4_only example_timer (response 403 [] 0 [])
        example_account)) = []"
proof -
  have r: "regc (response 503 [] 0 []) = getRegistrationInfo example_account"
    "regc (response 403 [] 0 []) = getRegistrationInfo example_account"
    by (simp_all add: response_def getRegistrationInfo_def example_account_def)
  have u: "isUsable example_account"
    by (simp add: isUsable_def example_account_def)
  have c: "code (response 503 [] 0 []) = 503" "code (response 403 [] 0 []) = 403"
    by (simp_all add: response_def)
  have e: "events example_account = []" "auto_rereg_attempt_cnt example_account = 0"
    "draw_zero example_timer = - 9999" "draw_pos example_timer = 7"
    by (simp_all add: example_account_def example_timer_def)
  from onRegister_schedules_retry_iff [OF r(1) u, of ipv4_only example_timer]
    onRegister_schedules_retry_iff [OF r(2) u, of ipv4_only example_timer]
  show ?thesis
    using r u by (simp add: c e reregistration_delay_examples)
qed

lemma onRegister_keeps:
  "regc param = getRegistrationInfo s \<Longrightarrow>
   m_regc (onRegister X T param s) = m_regc (register_response X param s)
   \<and> m_registrationState (onRegister X T param s)
       = m_registrationState (register_response X param s)
   \<and> m_registrationStateDetailed (onRegister X T param s)
       = m_registrationStateDetailed (register_response X param s)"
  by (simp add: onRegister_def Let_def scheduleReregistration_keeps)

lemma destroyRegistrationInfo_regc [simp]: "m_regc (destroyRegistrationInfo s) = None"
  by (simp add: destroyRegistrationInfo_def emit_def split: option.splits)

lemma destroyRegistrationInfo_events:
  "events (destroyRegistrationInfo s) =
     events s @ (case m_regc s of None \<Rightarrow> [] | Some r \<Rightarrow> [Regc_destroy r])"
  by (simp add: destroyRegistrationInfo_def emit_def split: option.splits)

text \<open>
  C3, as the code has it. When the callback is for the registration structure of the
  account: if the status of the callback is \<^verbatim>\<open>PJ_SUCCESS\<close> and the code is negative or at
  least 300, the registration structure is destroyed and the state is ErrorAuth for 403,
  ErrorHost for 404 and 408, ErrorServiceUnavailable for 503 and ErrorGeneric for every
  other code; if the status of the callback is not \<^verbatim>\<open>PJ_SUCCESS\<close>, the registration
  structure is destroyed and the state is ErrorGeneric whatever the code. In both cases the
  code is recorded with the state.
\<close>

theorem onRegister_failure_state:
  assumes "regc param = getRegistrationInfo s"
  shows "(status param = PJ_SUCCESS \<and> (code param < 0 \<or> 300 \<le> code param) \<longrightarrow>
            m_regc (onRegister X T param s) = None
            \<and> m_registrationState (onRegister X T param s) =
                (if code param = 403 then ERROR_AUTH
                 else if code param = 404 \<or> code param = 408 then ERROR_HOST
                 else if code param = 503 then ERROR_SERVICE_UNAVAILABLE
                 else ERROR_GENERIC)
            \<and> m_registrationStateDetailed (onRegister X T param s) = code param)
       \<and> (status param \<noteq> PJ_SUCCESS \<longrightarrow>
            m_regc (onRegister X T param s) = None
            \<and> m_registrationState (onRegister X T param s) = ERROR_GENERIC
            \<and> m_registrationStateDetailed (onRegister X T param s) = code param)"
  using onRegister_keeps [OF assms, of X T]
  by (simp add: register_response_def Let_def setRegistrationState_def status_code_defs)


theorem onRegister_failure_state_witness:
  "regc (response 403 [] 0 []) = getRegistrationInfo example_account
   \<and> status (response 403 [] 0 []) = PJ_SUCCESS \<and> 300 \<le> code (response 403 [] 0 [])
   \<and> m_registrationState (onRegister ipv4_only example_timer (response 403 [] 0 [])
        example_account) = ERROR_AUTH
   \<and> m_regc (onRegister ipv4_only example_timer (response 403 [] 0 []) example_account) = None
   \<and> regc failed_status_403 = getRegistrationInfo example_account
   \<and> status failed_status_403 \<noteq> PJ_SUCCESS
   \<and> m_registrationState (onRegister ipv4_only example_timer failed_status_403
        example_account) = ERROR_GENERIC"
proof -
  have r: "regc (response 403 [] 0 []) = getRegistrationInfo example_account"
    "regc failed_status_403 = getRegistrationInfo example_account"
    by (simp_all add: failed_status_403_def response_def getRegistrationInfo_def
        example_account_def)
  have c: "status (response 403 [] 0 []) = PJ_SUCCESS" "code (response 403 [] 0 []) = 403"
    "status failed_status_403 \<noteq> PJ_SUCCESS"
    by (simp_all add: failed_status_403_def response_def PJ_SUCCESS_def)
  from onRegister_failure_state [OF r(1), of ipv4_only example_timer]
    onRegister_failure_state [OF r(2), of ipv4_only example_timer]
  show ?thesis
    using r c by simp
qed

theorem onRegister_failure_state_counterexample:
  "regc failed_status_403 = getRegistrationInfo example_account
   \<and> status failed_status_403 \<noteq> PJ_SUCCESS
   \<and> code failed_status_403 = 403
   \<and> m_registrationState (onRegister ipv4_only example_timer failed_status_403
        example_account) = ERROR_GENERIC
   \<and> m_registrationState (onRegister ipv4_only example_timer failed_status_403
        example_account) \<noteq> ERROR_AUTH"
proof -
  have r: "regc failed_status_403 = getRegistrationInfo example_account"
    by (simp add: failed_status_403_def response_def getRegistrationInfo_def
        example_account_def)
  have c: "status failed_status_403 \<noteq> PJ_SUCCESS" "code failed_status_403 = 403"
    by (simp_all add: failed_status_403_def response_def PJ_SUCCESS_def)
  have "m_registrationState (register_response ipv4_only failed_status_403 example_account)
          = ERROR_GENERIC"
    using c by (simp add: register_response_def setRegistrationState_def)
  with onRegister_keeps [OF r, of ipv4_only example_timer] r c show ?thesis by simp
qed

section \<open>Properties of the NAT check\<close>

lemma nat_via_addr_observed: "nat_via_addr param = observed_address param"
  by (simp add: nat_via_addr_def observed_address_def Let_def)

lemma nat_rport_observed: "nat_rport X param = observed_port X param"
  by (simp add: nat_rport_def observed_port_def Let_def)

lemma nat_recv_addr_observed: "nat_recv_addr X param = observed_sockaddr X param"
  by (simp add: nat_recv_addr_def observed_sockaddr_def nat_via_addr_observed
      nat_rport_observed)

lemma nat_published_contact:
  "m_contactAddress (nat_set_published X param (nat_update_via X param s)) = m_contactAddress s"
  "m_contactHeader (nat_set_published X param (nat_update_via X param s)) = m_contactHeader s"
  "contact_updates (events (nat_set_published X param (nat_update_via X param s)))
     = contact_updates (events s)"
  by (simp_all add: nat_set_published_def nat_update_via_def emit_def Let_def contact_updates_def)

lemma nat_contact_addr_current:
  "nat_contact_addr X param (nat_set_published X param (nat_update_via X param s))
     = current_contact X param s"
  by (simp add: nat_contact_addr_def current_contact_def getContactAddress_def Let_def
      nat_published_contact)

lemma nat_matched_observed:
  "nat_matched X param (nat_set_published X param (nat_update_via X param s))
     = observed_equals_contact X param s"
  by (auto simp add: nat_matched_def observed_equals_contact_def nat_parse_status_def
      nat_contact_addr_current nat_recv_addr_observed nat_via_addr_observed nat_rport_observed)

text \<open>
  C5. When the observed address and port of a REGISTER response compare equal to the
  current contact address and port (as socket addresses when the observed address parses,
  as strings with equal ports otherwise), \<^verbatim>\<open>checkNATAddress\<close> returns false, leaves the
  contact header and the contact address as they were and asks for no contact update.
\<close>

theorem checkNATAddress_unchanged_when_equal:
  "observed_equals_contact X param s \<Longrightarrow>
   fst (checkNATAddress X param s) = False
   \<and> m_contactHeader (snd (checkNATAddress X param s)) = m_contactHeader s
   \<and> m_contactAddress (snd (checkNATAddress X param s)) = m_contactAddress s
   \<and> contact_updates (events (snd (checkNATAddress X param s))) = contact_updates (events s)"
  by (simp add: checkNATAddress_def Let_def nat_matched_observed nat_published_contact)

text \<open>
  C6. When the current contact address is not private, the source address of the response
  is not private and the observed Via address is private, \<^verbatim>\<open>checkNATAddress\<close> returns
  false, leaves the contact header and the contact address as they were and asks for no
  contact update, whether or not the observed and the current address are equal.
\<close>

theorem checkNATAddress_public_contact_private_via:
  "\<not> isPrivate X (current_contact X param s) \<Longrightarrow>
   \<not> isPrivate X (IpAddr_of_string X (pkt_info_src_name (rdata param))) \<Longrightarrow>
   isPrivate X (observed_sockaddr X param) \<Longrightarrow>
   fst (checkNATAddress X param s) = False
   \<and> m_contactHeader (snd (checkNATAddress X param s)) = m_contactHeader s
   \<and> m_contactAddress (snd (checkNATAddress X param s)) = m_contactAddress s
   \<and> contact_updates (events (snd (checkNATAddress X param s))) = contact_updates (events s)"
  by (simp add: checkNATAddress_def Let_def nat_contact_addr_current nat_recv_addr_observed
      nat_published_contact)

lemma ipv4_only_simps:
  "IpAddr_default ipv4_only = Unspecified"
  "IpAddr_of_string ipv4_only str = (case parse_ipv4 str of None \<Rightarrow> Unspecified | Some a \<Rightarrow> a)"
  "pj_sockaddr_parse ipv4_only str a =
     (case parse_ipv4 str of None \<Rightarrow> (False, a) | Some b \<Rightarrow> (True, b))"
  "getPort ipv4_only = ipv4_getPort"
  "setPort ipv4_only = ipv4_setPort"
  "ip_equal ipv4_only = (=)"
  "isPrivate ipv4_only = ipv4_isPrivate"
  "toString ipv4_only = ipv4_toString"
  "isIpv6_string ipv4_only str = False"
  "default_port_for_type ipv4_only t = (if t = 3 then 5061 else 5060)"
  "pn_provider ipv4_only = []"
  by (simp_all add: ipv4_only_def)

theorem checkNATAddress_unchanged_when_equal_witness:
  "observed_equals_contact ipv4_only (response 200 ''203.0.113.5'' 5060 ''198.51.100.7'')
     example_account
   \<and> m_contactAddress example_account = V4 203 0 113 5 5060
   \<and> observed_address (response 200 ''203.0.113.5'' 5060 ''198.51.100.7'') = ''203.0.113.5''
   \<and> observed_port ipv4_only (response 200 ''203.0.113.5'' 5060 ''198.51.100.7'') = 5060
   \<and> fst (checkNATAddress ipv4_only (response 200 ''203.0.113.5'' 5060 ''198.51.100.7'')
        example_account) = False
   \<and> m_contactHeader (snd (checkNATAddress ipv4_only
        (response 200 ''203.0.113.5'' 5060 ''198.51.100.7'') example_account))
       = ''<sip:alice@203.0.113.5:5060>''"
proof -
  have p: "parse_ipv4 ''203.0.113.5'' = Some (V4 203 0 113 5 0)"
    by (simp add: parse_ipv4_def parse_octet_def)
  have a: "observed_address (response 200 ''203.0.113.5'' 5060 ''198.51.100.7'') = ''203.0.113.5''"
    "observed_port ipv4_only (response 200 ''203.0.113.5'' 5060 ''198.51.100.7'') = 5060"
    by (simp_all add: observed_address_def observed_port_def response_def)
  have c: "m_contactAddress example_account = V4 203 0 113 5 5060"
    "m_contactHeader example_account = ''<sip:alice@203.0.113.5:5060>''"
    by (simp_all add: example_account_def)
  have h: "observed_equals_contact ipv4_only
             (response 200 ''203.0.113.5'' 5060 ''198.51.100.7'') example_account"
    by (simp add: observed_equals_contact_def observed_sockaddr_def current_contact_def a c p
        ipv4_only_simps to_uint16_def)
  from checkNATAddress_unchanged_when_equal [OF h] h a c show ?thesis by simp
qed

theorem checkNATAddress_public_contact_private_via_witness:
  "\<not> isPrivate ipv4_only (current_contact ipv4_only
        (response 200 ''10.0.0.4'' 5060 ''198.51.100.7'') example_account)
   \<and> \<not> isPrivate ipv4_only (IpAddr_of_string ipv4_only
        (pkt_info_src_name (rdata (response 200 ''10.0.0.4'' 5060 ''198.51.100.7''))))
   \<and> isPrivate ipv4_only (observed_sockaddr ipv4_only
        (response 200 ''10.0.0.4'' 5060 ''198.51.100.7''))
   \<and> \<not> observed_equals_contact ipv4_only (response 200 ''10.0.0.4'' 5060 ''198.51.100.7'')
        example_account
   \<and> m_contactAddress example_account = V4 203 0 113 5 5060
   \<and> fst (checkNATAddress ipv4_only (response 200 ''10.0.0.4'' 5060 ''198.51.100.7'')
        example_account) = False
   \<and> m_contactHeader (snd (checkNATAddress ipv4_only
        (response 200 ''10.0.0.4'' 5060 ''198.51.100.7'') example_account))
       = ''<sip:alice@203.0.113.5:5060>''"
proof -
  have p: "parse_ipv4 ''10.0.0.4'' = Some (V4 10 0 0 4 0)"
    "parse_ipv4 ''198.51.100.7'' = Some (V4 198 51 100 7 0)"
    by (simp_all add: parse_ipv4_def parse_octet_def)
  have a: "observed_address (response 200 ''10.0.0.4'' 5060 ''198.51.100.7'') = ''10.0.0.4''"
    "observed_port ipv4_only (response 200 ''10.0.0.4'' 5060 ''198.51.100.7'') = 5060"
    "pkt_info_src_name (rdata (response 200 ''10.0.0.4'' 5060 ''198.51.100.7''))
       = ''198.51.100.7''"
    by (simp_all add: observed_address_def observed_port_def response_def)
  have c: "m_contactAddress example_account = V4 203 0 113 5 5060"
    "m_contactHeader example_account = ''<sip:alice@203.0.113.5:5060>''"
    by (simp_all add: example_account_def)
  have h1: "\<not> isPrivate ipv4_only (current_contact ipv4_only
        (response 200 ''10.0.0.4'' 5060 ''198.51.100.7'') example_account)"
    by (simp add: current_contact_def c ipv4_only_simps)
  have h2: "\<not> isPrivate ipv4_only (IpAddr_of_string ipv4_only
        (pkt_info_src_name (rdata (response 200 ''10.0.0.4'' 5060 ''198.51.100.7''))))"
    by (simp add: a p ipv4_only_simps)
  have h3: "isPrivate ipv4_only (observed_sockaddr ipv4_only
        (response 200 ''10.0.0.4'' 5060 ''198.51.100.7''))"
    by (simp add: observed_sockaddr_def a p ipv4_only_simps)
  have d: "\<not> observed_equals_contact ipv4_only
        (response 200 ''10.0.0.4'' 5060 ''198.51.100.7'') example_account"
    by (simp add: observed_equals_contact_def observed_sockaddr_def current_contact_def a c p
        ipv4_only_simps to_uint16_def)
  from checkNATAddress_public_contact_private_via [OF h1 h2 h3] h1 h2 h3 d c
  show ?thesis by simp
qed

section \<open>Properties of the credentials\<close>

lemma add_credentials_lists:
  "m_credentials (add_credentials md5 en creds s)
     = m_credentials s @ map (new_credentials md5 en) creds
   \<and> m_cred (add_credentials md5 en creds s)
     = m_cred s @ map (\<lambda>cred. new_cred_info (new_credentials md5 en cred)) creds"
  by (induction creds arbitrary: s) (simp_all add: Let_def)

lemma setCredentials_lists:
  "creds \<noteq> [] \<Longrightarrow>
   m_credentials (snd (setCredentials md5 en creds s)) = map (new_credentials md5 en) creds
   \<and> m_cred (snd (setCredentials md5 en creds s))
     = map (\<lambda>cred. new_cred_info (new_credentials md5 en cred)) creds"
  by (simp add: setCredentials_def add_credentials_lists)

lemma byte_high_nibble: "b < 256 \<Longrightarrow> b div 16 < (16 :: nat)"
  by (simp add: div_less_iff_less_mult)

lemma hex_lowercase_concat:
  "\<forall>b\<in>set bs. b < 256 \<Longrightarrow> concat (map pj_val_to_hex_digit bs) = hex_lowercase bs"
  by (induction bs) (simp_all add: pj_val_to_hex_digit_def pj_hex_digits_def)

lemma hex_loop:
  assumes "length digest = 16" "\<forall>b\<in>set digest. b < 256"
  shows "concat (map (\<lambda>i. pj_val_to_hex_digit (digest ! i)) [0..<16]) = hex_lowercase digest"
proof -
  have "map (\<lambda>i. pj_val_to_hex_digit (digest ! i)) [0..<length digest]
          = map pj_val_to_hex_digit digest"
    by (rule nth_equalityI) simp_all
  with assms show ?thesis by (simp add: hex_lowercase_concat)
qed

lemma hex_lowercase_length: "length (hex_lowercase bs) = 2 * length bs"
  by (induction bs) simp_all

lemma hex_digit_not_NUL:
  assumes "n < 16"
  shows "''0123456789abcdef'' ! n \<noteq> CHR 0x00"
proof -
  have "''0123456789abcdef'' ! n \<in> set ''0123456789abcdef''"
    using assms by (intro nth_mem) simp
  then show ?thesis by auto
qed

lemma hex_lowercase_no_NUL:
  "\<forall>b\<in>set bs. b < 256 \<Longrightarrow> CHR 0x00 \<notin> set (hex_lowercase bs)"
proof (induction bs)
  case Nil
  then show ?case by simp
next
  case (Cons b bs)
  then have "b div 16 < 16" "b mod 16 < 16" by (simp_all add: byte_high_nibble)
  from hex_digit_not_NUL [OF this(1)] hex_digit_not_NUL [OF this(2)] Cons show ?case
    by auto
qed

lemma pj_str_id: "CHR 0x00 \<notin> set str \<Longrightarrow> pj_str str = str"
  by (auto simp add: pj_str_def)


text \<open>
  C8. \<^verbatim>\<open>setCredentials\<close> on the empty list ends with the error and leaves the account,
  with its credential list and its auth-info records, as it was.
\<close>

theorem setCredentials_empty_unchanged:
  "setCredentials md5 en [] s = (Some Empty_credentials_list, s)
   \<and> m_credentials (snd (setCredentials md5 en [] s)) = m_credentials s
   \<and> m_cred (snd (setCredentials md5 en [] s)) = m_cred s"
  by (simp add: setCredentials_def)

lemma new_credentials_fields:
  "realm (new_credentials md5 en cred)
     = (case cred CONFIG_ACCOUNT_REALM of Some v \<Rightarrow> v | None \<Rightarrow> [])"
  "username (new_credentials md5 en cred)
     = (case cred CONFIG_ACCOUNT_USERNAME of Some v \<Rightarrow> v | None \<Rightarrow> [])"
  "password (new_credentials md5 en cred)
     = (case cred CONFIG_ACCOUNT_PASSWORD of Some v \<Rightarrow> v | None \<Rightarrow> [])"
  by (simp_all add: new_credentials_def computePasswordHash_def Let_def)

lemma new_credentials_hash:
  assumes "length (md5 (username c @ '':'' @ realm c @ '':'' @ password c)) = 16"
    and "\<forall>b\<in>set (md5 (username c @ '':'' @ realm c @ '':'' @ password c)). b < 256"
    and "c = new_credentials md5 True cred"
  shows "password_h c = hex_lowercase (md5 (username c @ '':'' @ realm c @ '':'' @ password c))"
proof -
  let ?c0 = "\<lparr>realm = (case cred CONFIG_ACCOUNT_REALM of Some v \<Rightarrow> v | None \<Rightarrow> []),
               username = (case cred CONFIG_ACCOUNT_USERNAME of Some v \<Rightarrow> v | None \<Rightarrow> []),
               password = (case cred CONFIG_ACCOUNT_PASSWORD of Some v \<Rightarrow> v | None \<Rightarrow> []),
               password_h = []\<rparr>"
  have c: "c = computePasswordHash md5 ?c0"
    using assms(3) by (simp add: new_credentials_def)
  then have f: "username c = username ?c0" "realm c = realm ?c0" "password c = password ?c0"
    by (simp_all add: computePasswordHash_def Let_def)
  have "password_h c = concat (map (\<lambda>i. pj_val_to_hex_digit
          (md5 (username ?c0 @ '':'' @ realm ?c0 @ '':'' @ password ?c0) ! i)) [0..<16])"
    unfolding c by (simp add: computePasswordHash_def Let_def)
  also have "\<dots> = hex_lowercase (md5 (username ?c0 @ '':'' @ realm ?c0 @ '':'' @ password ?c0))"
    using assms(1,2) unfolding f by (rule hex_loop)
  finally show ?thesis unfolding f .
qed

text \<open>
  C9. Let the digest function give 16 bytes. After \<^verbatim>\<open>setCredentials\<close> on a list that is
  not empty, the entry and the auth-info record of each position hold the realm, the user
  name and the password of the map at that position (the empty string for a missing key),
  and
  \<^item> with hashing enabled, the hash of the entry is the digest of
    username ":" realm ":" password in lowercase hexadecimal, 32 characters long, and the
    record carries this hash, tagged as a digest;
  \<^item> with hashing disabled, the record is tagged as a plain password and carries the
    password of the entry as a C string: the whole password when it has no NUL character.
\<close>

theorem setCredentials_digest_or_plain:
  assumes "\<forall>m. length (md5 m) = 16 \<and> (\<forall>b\<in>set (md5 m). b < 256)"
    and "i < length creds"
  shows "let c = m_credentials (snd (setCredentials md5 en creds s)) ! i;
             info = m_cred (snd (setCredentials md5 en creds s)) ! i
         in length (m_credentials (snd (setCredentials md5 en creds s))) = length creds
            \<and> length (m_cred (snd (setCredentials md5 en creds s))) = length creds
            \<and> realm c = (case (creds ! i) CONFIG_ACCOUNT_REALM of Some v \<Rightarrow> v | None \<Rightarrow> [])
            \<and> username c = (case (creds ! i) CONFIG_ACCOUNT_USERNAME of Some v \<Rightarrow> v | None \<Rightarrow> [])
            \<and> password c = (case (creds ! i) CONFIG_ACCOUNT_PASSWORD of Some v \<Rightarrow> v | None \<Rightarrow> [])
            \<and> (en \<longrightarrow>
                 password_h c
                   = hex_lowercase (md5 (username c @ '':'' @ realm c @ '':'' @ password c))
                 \<and> length (password_h c) = 32
                 \<and> cred_data_type info = PJSIP_CRED_DATA_DIGEST
                 \<and> cred_data info = password_h c)
            \<and> (\<not> en \<longrightarrow>
                 cred_data_type info = PJSIP_CRED_DATA_PLAIN_PASSWD
                 \<and> cred_data info = pj_str (password c)
                 \<and> (CHR 0x00 \<notin> set (password c) \<longrightarrow> cred_data info = password c))"
proof -
  define c where "c = new_credentials md5 en (creds ! i)"
  from assms(2) have ne: "creds \<noteq> []" by auto
  note l = setCredentials_lists [OF ne, of md5 en s]
  have ci: "m_credentials (snd (setCredentials md5 en creds s)) ! i = c"
    "m_cred (snd (setCredentials md5 en creds s)) ! i = new_cred_info c"
    using l assms(2) by (simp_all add: c_def)
  have len: "length (m_credentials (snd (setCredentials md5 en creds s))) = length creds"
    "length (m_cred (snd (setCredentials md5 en creds s))) = length creds"
    using l by simp_all
  have fields: "realm c = (case (creds ! i) CONFIG_ACCOUNT_REALM of Some v \<Rightarrow> v | None \<Rightarrow> [])"
    "username c = (case (creds ! i) CONFIG_ACCOUNT_USERNAME of Some v \<Rightarrow> v | None \<Rightarrow> [])"
    "password c = (case (creds ! i) CONFIG_ACCOUNT_PASSWORD of Some v \<Rightarrow> v | None \<Rightarrow> [])"
    by (simp_all add: c_def new_credentials_fields)
  let ?d = "md5 (username c @ '':'' @ realm c @ '':'' @ password c)"
  have d: "length ?d = 16" "\<forall>b\<in>set ?d. b < 256" using assms(1) by simp_all
  have hashed: "password_h c = hex_lowercase ?d \<and> length (password_h c) = 32
      \<and> cred_data_type (new_cred_info c) = PJSIP_CRED_DATA_DIGEST
      \<and> cred_data (new_cred_info c) = password_h c" if en
  proof -
    from that have "c = new_credentials md5 True (creds ! i)" by (simp add: c_def)
    from new_credentials_hash [OF d this] have h: "password_h c = hex_lowercase ?d" .
    then have n: "length (password_h c) = 32" using d(1) by (simp add: hex_lowercase_length)
    then have "password_h c \<noteq> []" by auto
    moreover have "pj_str (password_h c) = password_h c"
      unfolding h by (rule pj_str_id) (rule hex_lowercase_no_NUL [OF d(2)])
    ultimately show ?thesis using h n by (simp add: new_cred_info_def)
  qed
  have plain: "cred_data_type (new_cred_info c) = PJSIP_CRED_DATA_PLAIN_PASSWD
      \<and> cred_data (new_cred_info c) = pj_str (password c)
      \<and> (CHR 0x00 \<notin> set (password c) \<longrightarrow> cred_data (new_cred_info c) = password c)"
    if "\<not> en"
  proof -
    from that have "password_h c = []" by (simp add: c_def new_credentials_def)
    then show ?thesis by (simp add: new_cred_info_def pj_str_id)
  qed
  show ?thesis
    unfolding Let_def ci using len fields hashed plain by blast
qed


lemma le_bytes4_range: "length (le_bytes4 n) = 4 \<and> (\<forall>b\<in>set (le_bytes4 n). b < 256)"
  by (simp add: le_bytes4_def)

lemma md5_bytes_range: "length (md5_bytes bs) = 16 \<and> (\<forall>b\<in>set (md5_bytes bs). b < 256)"
  using le_bytes4_range by (simp add: md5_bytes_def split: prod.splits)

lemma md5_range: "length (md5_rfc1321 m) = 16 \<and> (\<forall>b\<in>set (md5_rfc1321 m). b < 256)"
  unfolding md5_rfc1321_def by (rule md5_bytes_range)

lemma replicate_numeral: "replicate (numeral k) x = x # replicate (pred_numeral k) x"
  by (simp add: numeral_eq_Suc)

lemma md5_steps_numeral:
  "md5_steps M (numeral k) i st = md5_steps M (pred_numeral k) (i + 1) (md5_step M st i)"
  by (simp add: numeral_eq_Suc)

text \<open>The test suite of RFC 1321 gives 900150983cd24fb0d6963f7d28e17f72 for "abc".\<close>

lemma md5_abc: "hex_lowercase (md5_rfc1321 ''abc'') = ''900150983cd24fb0d6963f7d28e17f72''"
proof -
  have pad: "md5_pad (map of_char ''abc'')
               = [97, 98, 99, 128] @ replicate 52 0 @ [24, 0, 0, 0, 0, 0, 0, 0]"
    by (simp add: md5_pad_def le_bytes4_def)
  have blk: "md5_block (0x67452301, 0xefcdab89, 0x98badcfe, 0x10325476)
               [0x80636261, 0, 0, 0, 0, 0, 0, 0, 0, 0, 0, 0, 0, 0, 24, 0]
             = (0x98500190, 0xb04fd23c, 0x7d3f96d6, 0x727fe128)"
    by (simp add: md5_block_def md5_steps_numeral md5_step_def md5_K_def md5_s_def rotl32_def)
  have "md5_bytes (map of_char ''abc'')
          = [144, 1, 80, 152, 60, 210, 79, 176, 214, 150, 63, 125, 40, 225, 127, 114]"
    unfolding md5_bytes_def pad
    by (simp add: blk le_bytes4_def replicate_numeral)
  then show ?thesis by (simp add: md5_rfc1321_def)
qed


lemma md5_alice:
  "md5_rfc1321 ''alice:example.org:secret''
     = [84, 62, 26, 236, 93, 54, 20, 240, 49, 65, 101, 45, 106, 218, 81, 178]"
  unfolding md5_rfc1321_def md5_bytes_def
  by (simp add: md5_pad_def le_bytes4_def replicate_numeral md5_block_def md5_steps_numeral
      md5_step_def md5_K_def md5_s_def rotl32_def)

theorem setCredentials_digest_or_plain_witness:
  "password_h (m_credentials (snd (setCredentials md5_rfc1321 True example_credentials
       example_account)) ! 0) = ''543e1aec5d3614f03141652d6ada51b2''
   \<and> cred_data_type (m_cred (snd (setCredentials md5_rfc1321 True example_credentials
       example_account)) ! 0) = PJSIP_CRED_DATA_DIGEST
   \<and> cred_data (m_cred (snd (setCredentials md5_rfc1321 True example_credentials
       example_account)) ! 0) = ''543e1aec5d3614f03141652d6ada51b2''
   \<and> cred_data_type (m_cred (snd (setCredentials md5_rfc1321 False example_credentials
       example_account)) ! 0) = PJSIP_CRED_DATA_PLAIN_PASSWD
   \<and> cred_data (m_cred (snd (setCredentials md5_rfc1321 False example_credentials
       example_account)) ! 0) = ''secret''"
proof -
  have h: "\<forall>m. length (md5_rfc1321 m) = 16 \<and> (\<forall>b\<in>set (md5_rfc1321 m). b < 256)"
    using md5_range by blast
  have i: "0 < length example_credentials"
    by (simp add: example_credentials_def)
  have e: "(example_credentials ! 0) CONFIG_ACCOUNT_REALM = Some ''example.org''"
    "(example_credentials ! 0) CONFIG_ACCOUNT_USERNAME = Some ''alice''"
    "(example_credentials ! 0) CONFIG_ACCOUNT_PASSWORD = Some ''secret''"
    by (simp_all add: example_credentials_def CONFIG_ACCOUNT_REALM_def
        CONFIG_ACCOUNT_USERNAME_def CONFIG_ACCOUNT_PASSWORD_def)
  note t = setCredentials_digest_or_plain [OF h i, of True example_account]
  note f = setCredentials_digest_or_plain [OF h i, of False example_account]
  from t have "password_h (m_credentials (snd (setCredentials md5_rfc1321 True
        example_credentials example_account)) ! 0) = ''543e1aec5d3614f03141652d6ada51b2''
     \<and> cred_data_type (m_cred (snd (setCredentials md5_rfc1321 True example_credentials
        example_account)) ! 0) = PJSIP_CRED_DATA_DIGEST
     \<and> cred_data (m_cred (snd (setCredentials md5_rfc1321 True example_credentials
        example_account)) ! 0) = ''543e1aec5d3614f03141652d6ada51b2''"
    by (auto simp add: Let_def e md5_alice)
  moreover from f have "cred_data_type (m_cred (snd (setCredentials md5_rfc1321 False
        example_credentials example_account)) ! 0) = PJSIP_CRED_DATA_PLAIN_PASSWD
     \<and> cred_data (m_cred (snd (setCredentials md5_rfc1321 False example_credentials
        example_account)) ! 0) = ''secret''"
    by (auto simp add: Let_def e)
  ultimately show ?thesis by simp
qed


section \<open>Properties of registration and unregistration\<close>

lemma requests_sent_append [simp]:
  "requests_sent (es @ fs) = requests_sent es @ requests_sent fs"
  by (simp add: requests_sent_def)

lemma requests_sent_simps [simp]:
  "requests_sent [] = []"
  "requests_sent (Regc_send r q # es) = q # requests_sent es"
  "requests_sent (Schedule_timer d # es) = requests_sent es"
  "requests_sent (Cancel_timer # es) = requests_sent es"
  "requests_sent (Regc_destroy r # es) = requests_sent es"
  "requests_sent (Regc_set_via_sent_by ro h p t # es) = requests_sent es"
  "requests_sent (Regc_update_contact r c # es) = requests_sent es"
  "requests_sent (Regc_set_route_set ro c # es) = requests_sent es"
  "requests_sent (Regc_release_transport r # es) = requests_sent es"
  "requests_sent (Remove_state_listener r # es) = requests_sent es"
  by (simp_all add: requests_sent_def)

text \<open>
  C4, as the code has it. For an account that is not the direct-IP profile, when the
  resolver finds no address for the registrar, \<^verbatim>\<open>doRegister1_\<close> sets the registration state
  ErrorGeneric with the code 404 and does nothing else: \<^verbatim>\<open>doRegister2_\<close> is not entered,
  no call into pjsip is made and no REGISTER request is sent.
\<close>

theorem doRegister1_no_address:
  "\<not> isIP2IP s \<Longrightarrow>
   resolveSrvName (if hasServiceRoute s then getServiceRoute s else m_hostname s)
     (if m_tlsEnable s then PJSIP_TRANSPORT_TLS else PJSIP_TRANSPORT_UDP) = [] \<Longrightarrow>
   doRegister1 resolveSrvName doRegister2 s
     = setRegistrationState ERROR_GENERIC PJSIP_SC_NOT_FOUND s
   \<and> m_registrationState (doRegister1 resolveSrvName doRegister2 s) = ERROR_GENERIC
   \<and> m_registrationStateDetailed (doRegister1 resolveSrvName doRegister2 s) = 404
   \<and> events (doRegister1 resolveSrvName doRegister2 s) = events s
   \<and> requests_sent (events (doRegister1 resolveSrvName doRegister2 s))
       = requests_sent (events s)"
  by (simp add: doRegister1_def setRegistrationState_def PJSIP_SC_NOT_FOUND_def)

theorem doRegister1_no_address_witness:
  "\<not> isIP2IP example_account
   \<and> resolves_nothing
        (if hasServiceRoute example_account then getServiceRoute example_account
         else m_hostname example_account)
        (if m_tlsEnable example_account then PJSIP_TRANSPORT_TLS else PJSIP_TRANSPORT_UDP) = []
   \<and> m_registrationState (doRegister1 resolves_nothing id example_account) = ERROR_GENERIC
   \<and> m_registrationStateDetailed (doRegister1 resolves_nothing id example_account) = 404
   \<and> requests_sent (events (doRegister1 resolves_nothing id example_account)) = []"
proof -
  have a: "\<not> isIP2IP example_account"
    by (simp add: isIP2IP_def example_account_def)
  have b: "resolves_nothing
        (if hasServiceRoute example_account then getServiceRoute example_account
         else m_hostname example_account)
        (if m_tlsEnable example_account then PJSIP_TRANSPORT_TLS else PJSIP_TRANSPORT_UDP) = []"
    by (simp add: resolves_nothing_def)
  have e: "events example_account = []" by (simp add: example_account_def)
  from doRegister1_no_address [where s = example_account and resolveSrvName = resolves_nothing
      and ?doRegister2.0 = id, OF a b, THEN conjunct2] a b e
  show ?thesis by simp
qed

theorem doRegister1_no_address_counterexample:
  "\<not> isIP2IP example_account
   \<and> resolves_nothing (m_hostname example_account) PJSIP_TRANSPORT_UDP = []
   \<and> m_registrationState (doRegister1 resolves_nothing id example_account) = ERROR_GENERIC
   \<and> m_registrationState (doRegister1 resolves_nothing id example_account) \<noteq> ERROR_HOST"
  by (simp add: doRegister1_def isIP2IP_def resolves_nothing_def setRegistrationState_def
      example_account_def)

lemma sendUnregister_cases:
  "sendUnregister P s =
     (if isRegistered s \<and> m_regc s \<noteq> None \<and> regc_unregister_ok P \<and> regc_set_transport_ok P
      then (if m_transport s = None then Inl Null_pointer_dereference
            else Inr (if regc_send_ok P then None
                      else Some (VoipLinkException
                             ''Unable to send request to unregister sip account''),
                      emit (Regc_send (the (m_regc s)) UNREGISTER) (setRegister False s)))
      else Inr (fst (projr (sendUnregister P s)), snd (projr (sendUnregister P s))))
   \<and> (\<not> (isRegistered s \<and> m_regc s \<noteq> None \<and> regc_unregister_ok P \<and> regc_set_transport_ok P)
        \<longrightarrow> events (snd (projr (sendUnregister P s))) = events s
            \<and> m_hostname (snd (projr (sendUnregister P s))) = m_hostname s)"
  by (auto simp add: sendUnregister_def Let_def setRegistrationState_def setRegister_def
      getRegistrationInfo_def getTransportSelector_def isRegistered_def emit_def
      split: option.splits)

lemma setTransport_nullptr_keeps [simp]:
  "m_hostname (setTransport_nullptr s) = m_hostname s"
  "requests_sent (events (setTransport_nullptr s)) = requests_sent (events s)"
  by (simp_all add: setTransport_nullptr_def Let_def emit_def split: option.splits)

lemma doUnregister_after:
  "(if \<not> isIP2IP s then sendUnregister P (s\<lparr>m_tlsListener := None\<rparr>)
    else Inr (None, s\<lparr>m_tlsListener := None\<rparr>)) = Inr (exception, s2) \<Longrightarrow>
   m_hostname s2 = m_hostname s \<Longrightarrow>
   \<exists>s'. doUnregister P s = Inr (m_hostname s \<noteq> [], s')
        \<and> requests_sent (events s') = requests_sent (events s2)"
  by (simp add: doUnregister_def Let_def isIP2IP_def resetAutoRegistration_def)

text \<open>
  C10. \<^verbatim>\<open>isIP2IP\<close> holds of an account exactly when its host name is the empty string.
  For such an account \<^verbatim>\<open>doUnregister\<close> hands no request to \<^verbatim>\<open>pjsip_regc_send\<close> and
  tells \<^verbatim>\<open>released_cb\<close> that no transport was freed. For every other account
  \<^verbatim>\<open>sendUnregister\<close> is entered: when the account is registered, has a registration
  structure and pjsip prepares the request and takes the transport selector, the
  unREGISTER request is handed to \<^verbatim>\<open>pjsip_regc_send\<close> if the account has a transport, and
  the program faults on the null transport of the selector if it has none; otherwise no
  request is handed over. Whenever \<^verbatim>\<open>doUnregister\<close> returns for an account with a host
  name, \<^verbatim>\<open>released_cb\<close> is told that the transport was freed.
\<close>

theorem isIP2IP_iff_hostname_empty:
  "isIP2IP s = (m_hostname s = [])
   \<and> (isIP2IP s \<longrightarrow>
        (\<exists>s'. doUnregister P s = Inr (False, s')
              \<and> requests_sent (events s') = requests_sent (events s)))
   \<and> (\<not> isIP2IP s \<and> isRegistered s \<and> m_regc s \<noteq> None \<and> regc_unregister_ok P
        \<and> regc_set_transport_ok P \<and> m_transport s = None \<longrightarrow>
        doUnregister P s = Inl Null_pointer_dereference)
   \<and> (\<not> isIP2IP s \<and> isRegistered s \<and> m_regc s \<noteq> None \<and> regc_unregister_ok P
        \<and> regc_set_transport_ok P \<and> m_transport s \<noteq> None \<longrightarrow>
        (\<exists>s'. doUnregister P s = Inr (True, s')
              \<and> requests_sent (events s') = requests_sent (events s) @ [UNREGISTER]))
   \<and> (\<not> isIP2IP s \<and> \<not> (isRegistered s \<and> m_regc s \<noteq> None \<and> regc_unregister_ok P
        \<and> regc_set_transport_ok P) \<longrightarrow>
        (\<exists>s'. doUnregister P s = Inr (True, s')
              \<and> requests_sent (events s') = requests_sent (events s)))"
proof -
  let ?s1 = "s\<lparr>m_tlsListener := None\<rparr>"
  let ?reach = "isRegistered s \<and> m_regc s \<noteq> None \<and> regc_unregister_ok P
                 \<and> regc_set_transport_ok P"
  have f: "isRegistered ?s1 = isRegistered s" "m_regc ?s1 = m_regc s"
    "m_transport ?s1 = m_transport s" "events ?s1 = events s" "m_hostname ?s1 = m_hostname s"
    "isIP2IP ?s1 = isIP2IP s"
    by (simp_all add: isRegistered_def isIP2IP_def)
  note c = sendUnregister_cases [of P ?s1, unfolded f]
  have a: "isIP2IP s = (m_hostname s = [])" by (simp add: isIP2IP_def)
  have b: "\<exists>s'. doUnregister P s = Inr (False, s')
              \<and> requests_sent (events s') = requests_sent (events s)" if "isIP2IP s"
    using that doUnregister_after [of s P None ?s1] by (simp add: isIP2IP_def)
  have d: "doUnregister P s = Inl Null_pointer_dereference"
    if "\<not> isIP2IP s" ?reach "m_transport s = None"
    using that c f(6) by (simp add: doUnregister_def Let_def)
  have e: "\<exists>s'. doUnregister P s = Inr (True, s')
              \<and> requests_sent (events s') = requests_sent (events s) @ [UNREGISTER]"
    if h: "\<not> isIP2IP s" ?reach "m_transport s \<noteq> None"
  proof -
    let ?x = "if regc_send_ok P then None
              else Some (VoipLinkException ''Unable to send request to unregister sip account'')"
    let ?s2 = "emit (Regc_send (the (m_regc s)) UNREGISTER) (setRegister False ?s1)"
    from h c have "sendUnregister P ?s1 = Inr (?x, ?s2)" by simp
    with h(1) have "(if \<not> isIP2IP s then sendUnregister P ?s1 else Inr (None, ?s1))
                     = Inr (?x, ?s2)" by simp
    moreover have "m_hostname ?s2 = m_hostname s" by (simp add: emit_def setRegister_def)
    ultimately obtain s' where "doUnregister P s = Inr (m_hostname s \<noteq> [], s')"
      "requests_sent (events s') = requests_sent (events ?s2)"
      using doUnregister_after by blast
    moreover have "requests_sent (events ?s2) = requests_sent (events s) @ [UNREGISTER]"
      by (simp add: emit_def setRegister_def)
    ultimately show ?thesis using h(1) by (auto simp add: isIP2IP_def)
  qed
  have g: "\<exists>s'. doUnregister P s = Inr (True, s')
              \<and> requests_sent (events s') = requests_sent (events s)"
    if h: "\<not> isIP2IP s" "\<not> ?reach"
  proof -
    let ?r = "projr (sendUnregister P ?s1)"
    from h c have r: "sendUnregister P ?s1 = Inr (fst ?r, snd ?r)"
      "events (snd ?r) = events s" "m_hostname (snd ?r) = m_hostname s"
      by auto
    with h(1) have "(if \<not> isIP2IP s then sendUnregister P ?s1 else Inr (None, ?s1))
                     = Inr (fst ?r, snd ?r)" by simp
    from doUnregister_after [OF this r(3)] r(2) h(1) show ?thesis
      by (auto simp add: isIP2IP_def)
  qed
  from a b d e g show ?thesis by blast
qed

theorem isIP2IP_iff_hostname_empty_witness:
  "isIP2IP ip2ip_account \<and> m_hostname ip2ip_account = []
   \<and> fst (projr (doUnregister all_ok ip2ip_account)) = False
   \<and> requests_sent (events (snd (projr (doUnregister all_ok ip2ip_account)))) = []
   \<and> \<not> isIP2IP example_account \<and> isRegistered example_account
   \<and> m_regc example_account = Some 1 \<and> regc_unregister_ok all_ok
   \<and> regc_set_transport_ok all_ok \<and> m_transport example_account = Some udp_transport
   \<and> fst (projr (doUnregister all_ok example_account)) = True
   \<and> requests_sent (events (snd (projr (doUnregister all_ok example_account)))) = [UNREGISTER]
   \<and> \<not> isIP2IP no_transport_account \<and> m_transport no_transport_account = None
   \<and> doUnregister all_ok no_transport_account = Inl Null_pointer_dereference"
proof -
  have a: "isIP2IP ip2ip_account" "m_hostname ip2ip_account = []"
    "events ip2ip_account = []"
    by (simp_all add: isIP2IP_def ip2ip_account_def example_account_def)
  have b: "\<not> isIP2IP example_account" "isRegistered example_account"
    "m_regc example_account = Some 1" "events example_account = []"
    "m_transport example_account = Some udp_transport"
    by (simp_all add: isIP2IP_def isRegistered_def example_account_def)
  have n: "\<not> isIP2IP no_transport_account" "isRegistered no_transport_account"
    "m_regc no_transport_account = Some 1" "m_transport no_transport_account = None"
    by (simp_all add: isIP2IP_def isRegistered_def no_transport_account_def example_account_def)
  have c: "regc_unregister_ok all_ok" "regc_set_transport_ok all_ok"
    by (simp_all add: all_ok_def)
  from isIP2IP_iff_hostname_empty [of ip2ip_account all_ok] a
  have x: "fst (projr (doUnregister all_ok ip2ip_account)) = False
     \<and> requests_sent (events (snd (projr (doUnregister all_ok ip2ip_account)))) = []"
    by auto
  from isIP2IP_iff_hostname_empty [of example_account all_ok] b c
  have y: "fst (projr (doUnregister all_ok example_account)) = True
     \<and> requests_sent (events (snd (projr (doUnregister all_ok example_account))))
         = [UNREGISTER]"
    by auto
  from isIP2IP_iff_hostname_empty [of no_transport_account all_ok] n c
  have z: "doUnregister all_ok no_transport_account = Inl Null_pointer_dereference"
    by auto
  from a b n c x y z show ?thesis by simp
qed

section \<open>Properties of the authenticated resend\<close>

text \<open>Adding 1 to a CSeq below the largest value adds 1 to the number it stands for.\<close>

lemma cseq_increment:
  fixes n :: "32 word"
  assumes "sint n < 2147483647"
  shows "sint (n + 1) = sint n + 1"
proof -
  have "- (2 ^ 31) \<le> sint n" using sint_ge [of n] by simp
  with assms have r: "- (2 ^ 31) \<le> sint n + 1" "sint n + 1 < 2 ^ 31" by simp_all
  have "sint (n + 1) = signed_take_bit 31 (sint n + sint (1 :: 32 word))"
    by (simp add: sint_word_ariths)
  also have "\<dots> = signed_take_bit 31 (sint n + 1)" by simp
  also have "\<dots> = sint n + 1" using r by (rule signed_take_bit_int_eq_self)
  finally show ?thesis .
qed

text \<open>
  C7, as the code has it. For a live account and a 401 or 407 answer: when
  \<^verbatim>\<open>pjsip_auth_clt_reinit_req\<close> gives a request and the endpoint takes it, \<^verbatim>\<open>onComplete\<close>
  resends exactly that request with its CSeq incremented by 1, with the same context, and
  reports nothing; when the endpoint does not take it, or when
  \<^verbatim>\<open>pjsip_auth_clt_reinit_req\<close> fails, it reports the delivery failure and resends
  nothing. One answer causes at most one resend, and the CSeq of a resend is that of the
  request given by \<^verbatim>\<open>pjsip_auth_clt_reinit_req\<close> plus 1, as a word of 32 bits and, below
  2147483647, as a number. The callback counts no resends: whether a second challenge is
  answered depends on the authentication session and the endpoint alone.
\<close>

theorem onComplete_challenge:
  assumes "acc_alive c"
    and "tsx_status_code ev = 401 \<or> tsx_status_code ev = 407"
  shows "(\<forall>sess r. auth_clt_reinit_req E (auth_sess c) (challenge ev) (last_tx ev) = (sess, Some r)
            \<and> endpt_send_request_ok E (r\<lparr>cseq := cseq r + 1\<rparr>) \<longrightarrow>
            onComplete E c ev = [Send_request (r\<lparr>cseq := cseq r + 1\<rparr>) (c\<lparr>auth_sess := sess\<rparr>)])
       \<and> (\<forall>sess r. auth_clt_reinit_req E (auth_sess c) (challenge ev) (last_tx ev) = (sess, Some r)
            \<and> \<not> endpt_send_request_ok E (r\<lparr>cseq := cseq r + 1\<rparr>) \<longrightarrow>
            onComplete E c ev = [On_message_sent (ctx_to c) (ctx_id c) False])
       \<and> (\<forall>sess. auth_clt_reinit_req E (auth_sess c) (challenge ev) (last_tx ev) = (sess, None)
            \<longrightarrow> onComplete E c ev = [On_message_sent (ctx_to c) (ctx_id c) False])
       \<and> length (resent_cseqs (onComplete E c ev)) \<le> 1
       \<and> (\<forall>n \<in> set (resent_cseqs (onComplete E c ev)).
            \<exists>sess r. auth_clt_reinit_req E (auth_sess c) (challenge ev) (last_tx ev)
                       = (sess, Some r)
                     \<and> n = cseq r + 1
                     \<and> (sint (cseq r) < 2147483647 \<longrightarrow> sint n = sint (cseq r) + 1))"
  using assms
  by (auto simp add: onComplete_def Let_def status_code_defs cseq_increment
      split: prod.splits option.splits)

theorem onComplete_challenge_witness:
  "acc_alive example_ctx
   \<and> onComplete answers_each_realm_once example_ctx
        \<lparr>tsx_status_code = 401, challenge = ''registrar'', last_tx = example_request\<rparr>
       = [Send_request \<lparr>cseq = 2, headers = [''Authorization: registrar'']\<rparr>
            (example_ctx\<lparr>auth_sess := [''registrar'']\<rparr>)]
   \<and> sint (cseq example_request) = 1
   \<and> map sint (resent_cseqs (onComplete answers_each_realm_once example_ctx
        \<lparr>tsx_status_code = 401, challenge = ''registrar'', last_tx = example_request\<rparr>)) = [2]
   \<and> onComplete answers_each_realm_once (example_ctx\<lparr>auth_sess := [''registrar'']\<rparr>)
        \<lparr>tsx_status_code = 401, challenge = ''registrar'',
           last_tx = \<lparr>cseq = 2, headers = [''Authorization: registrar'']\<rparr>\<rparr>
       = [On_message_sent ''bob'' 42 False]
   \<and> onComplete endpoint_refuses example_ctx
        \<lparr>tsx_status_code = 401, challenge = ''registrar'', last_tx = example_request\<rparr>
       = [On_message_sent ''bob'' 42 False]"
proof -
  let ?ev1 = "\<lparr>tsx_status_code = 401, challenge = ''registrar'', last_tx = example_request\<rparr>"
  let ?c2 = "example_ctx\<lparr>auth_sess := [''registrar'']\<rparr>"
  let ?ev2 = "\<lparr>tsx_status_code = 401, challenge = ''registrar'',
           last_tx = \<lparr>cseq = 2, headers = [''Authorization: registrar'']\<rparr>\<rparr>"
  let ?r = "\<lparr>cseq = 1, headers = [''Authorization: registrar'']\<rparr>"
  have a: "acc_alive example_ctx" "acc_alive ?c2" by (simp_all add: example_ctx_def)
  have s: "tsx_status_code ?ev1 = 401 \<or> tsx_status_code ?ev1 = 407"
    "tsx_status_code ?ev2 = 401 \<or> tsx_status_code ?ev2 = 407" by simp_all
  have r1: "auth_clt_reinit_req answers_each_realm_once (auth_sess example_ctx)
              (challenge ?ev1) (last_tx ?ev1) = ([''registrar''], Some ?r)"
    by (simp add: answers_each_realm_once_def example_ctx_def example_request_def)
  have o1: "endpt_send_request_ok answers_each_realm_once (?r\<lparr>cseq := cseq ?r + 1\<rparr>)"
    by (simp add: answers_each_realm_once_def)
  have r2: "auth_clt_reinit_req answers_each_realm_once (auth_sess ?c2)
              (challenge ?ev2) (last_tx ?ev2) = ([''registrar''], None)"
    by (simp add: answers_each_realm_once_def)
  have r3: "auth_clt_reinit_req endpoint_refuses (auth_sess example_ctx)
              (challenge ?ev1) (last_tx ?ev1) = ([''registrar''], Some ?r)"
    by (simp add: endpoint_refuses_def answers_each_realm_once_def example_ctx_def
        example_request_def)
  have o3: "\<not> endpt_send_request_ok endpoint_refuses (?r\<lparr>cseq := cseq ?r + 1\<rparr>)"
    by (simp add: endpoint_refuses_def)
  note t1 = onComplete_challenge [of example_ctx ?ev1 answers_each_realm_once, OF a(1) s(1)]
  note t2 = onComplete_challenge [of ?c2 ?ev2 answers_each_realm_once, OF a(2) s(2)]
  note t3 = onComplete_challenge [of example_ctx ?ev1 endpoint_refuses, OF a(1) s(1)]
  from t1 have "auth_clt_reinit_req answers_each_realm_once (auth_sess example_ctx)
              (challenge ?ev1) (last_tx ?ev1) = ([''registrar''], Some ?r)
            \<and> endpt_send_request_ok answers_each_realm_once (?r\<lparr>cseq := cseq ?r + 1\<rparr>) \<longrightarrow>
            onComplete answers_each_realm_once example_ctx ?ev1
              = [Send_request (?r\<lparr>cseq := cseq ?r + 1\<rparr>) ?c2]"
    by blast
  with r1 o1 have x: "onComplete answers_each_realm_once example_ctx ?ev1
              = [Send_request (?r\<lparr>cseq := cseq ?r + 1\<rparr>) ?c2]"
    by blast
  from t2 have "auth_clt_reinit_req answers_each_realm_once (auth_sess ?c2)
              (challenge ?ev2) (last_tx ?ev2) = ([''registrar''], None) \<longrightarrow>
            onComplete answers_each_realm_once ?c2 ?ev2
              = [On_message_sent (ctx_to ?c2) (ctx_id ?c2) False]"
    by blast
  with r2 have y: "onComplete answers_each_realm_once ?c2 ?ev2
              = [On_message_sent (ctx_to ?c2) (ctx_id ?c2) False]"
    by blast
  from t3 have "auth_clt_reinit_req endpoint_refuses (auth_sess example_ctx)
              (challenge ?ev1) (last_tx ?ev1) = ([''registrar''], Some ?r)
            \<and> \<not> endpt_send_request_ok endpoint_refuses (?r\<lparr>cseq := cseq ?r + 1\<rparr>) \<longrightarrow>
            onComplete endpoint_refuses example_ctx ?ev1
              = [On_message_sent (ctx_to example_ctx) (ctx_id example_ctx) False]"
    by blast
  with r3 o3 have w: "onComplete endpoint_refuses example_ctx ?ev1
              = [On_message_sent (ctx_to example_ctx) (ctx_id example_ctx) False]"
    by blast
  have z: "ctx_to ?c2 = ''bob''" "ctx_id ?c2 = 42" "ctx_to example_ctx = ''bob''"
    "ctx_id example_ctx = 42" "sint (cseq example_request) = 1"
    by (simp_all add: example_ctx_def example_request_def)
  show ?thesis
    unfolding x y w z using a(1) by simp
qed

text \<open>
  A 407 answer of a proxy followed by a 401 answer of the registrar on the resend: the
  second challenge is answered by a second resend, and no failure is reported.
\<close>

theorem onComplete_challenge_counterexample:
  "map sint (resent_cseqs (deliver answers_each_realm_once example_ctx example_request
      [(407, ''proxy''), (401, ''registrar'')])) = [2, 3]
   \<and> reported (deliver answers_each_realm_once example_ctx example_request
      [(407, ''proxy''), (401, ''registrar'')]) = []"
  by (simp add: onComplete_def Let_def status_code_defs answers_each_realm_once_def
      example_ctx_def example_request_def)


end
